theory Spec2Isabelle
  imports Complex_Main "HOL-Library.Word" "HOL-Library.Char_ord" "HOL-Library.List_Lexorder"
    "HOL-Library.Product_Lexorder"
begin

unbundle bit_operations_syntax

chapter \<open>AI Companions Watch: ingest, cluster, rank and feed\<close>

text \<open>
  A shallow embedding of the TypeScript sources. JavaScript strings are char lists,
  \<open>Date\<close> values are their epoch milliseconds (\<open>int\<close>), JavaScript numbers are
  \<open>int\<close> where the program only holds integers and \<open>real\<close> otherwise, \<open>null\<close> and
  \<open>undefined\<close> are \<open>None\<close>, and a thrown exception is a value of a sum type.
\<close>

section \<open>Bounded text fields (lib/truncate.ts, lib/hash.ts)\<close>

text \<open>The keys of the \<open>LIMITS\<close> table (prefixed: the column names are record
  fields below).\<close>

datatype TruncateField =
  Field_rawText | Field_llmRawResponse | Field_normalizedSummary | Field_contextSummary
  | Field_suggestedHeadline | Field_clusterHeadline | Field_ingestReason

fun LIMITS :: "TruncateField \<Rightarrow> nat" where
  "LIMITS Field_rawText = 20000"
| "LIMITS Field_llmRawResponse = 20000"
| "LIMITS Field_normalizedSummary = 2000"
| "LIMITS Field_contextSummary = 1000"
| "LIMITS Field_suggestedHeadline = 200"
| "LIMITS Field_clusterHeadline = 200"
| "LIMITS Field_ingestReason = 500"

text \<open>\<open>text.slice(0, e)\<close> for a string and an integer \<open>e\<close>: a negative \<open>e\<close> counts
  from the end of the string.\<close>

definition slice0 :: "string \<Rightarrow> int \<Rightarrow> string" where
  "slice0 s e = (if e < 0 then take (nat (int (length s) + e)) s else take (nat e) s)"

definition truncate' :: "string option \<Rightarrow> TruncateField \<Rightarrow> string option" where
  "truncate' text field =
     (case text of
        None \<Rightarrow> None
      | Some t \<Rightarrow>
          if t = [] then Some []
          else let limit = LIMITS field in
            if length t \<le> limit then Some t
            else Some (slice0 t (int limit - 3) @ ''...''))"

definition truncateRequired :: "string \<Rightarrow> TruncateField \<Rightarrow> string" where
  "truncateRequired text field =
     (let limit = LIMITS field in
        if length text \<le> limit then text
        else slice0 text (int limit - 3) @ ''...'')"

text \<open>\<open>s.lastIndexOf(c)\<close>: the index of the last occurrence, or \<open>-1\<close>.\<close>

fun lastIndexOf_from :: "string \<Rightarrow> char \<Rightarrow> nat \<Rightarrow> int \<Rightarrow> int" where
  "lastIndexOf_from [] c i found = found"
| "lastIndexOf_from (x # xs) c i found =
     lastIndexOf_from xs c (Suc i) (if x = c then int i else found)"

definition lastIndexOf :: "string \<Rightarrow> char \<Rightarrow> int" where
  "lastIndexOf s c = lastIndexOf_from s c 0 (- 1)"

text \<open>\<open>truncateText\<close> of lib/hash.ts, the word-boundary truncation. The comparison
  \<open>lastSpace > maxLength * 0.8\<close> is taken over the reals.\<close>

definition truncateText :: "string \<Rightarrow> nat \<Rightarrow> string" where
  "truncateText text maxLength =
     (if length text \<le> maxLength then text
      else let truncated = slice0 text (int maxLength);
               lastSpace = lastIndexOf truncated CHR '' ''
           in if real_of_int lastSpace > real maxLength * 0.8
              then slice0 truncated lastSpace @ ''...''
              else truncated @ ''...'')"

definition MAX_RAW_TEXT_LENGTH :: nat where
  "MAX_RAW_TEXT_LENGTH = 20000"

text \<open>The \<open>rawText\<close> column written by \<open>storeRawSignal\<close>: an absent or empty text is
  stored as null.\<close>

definition storeRawSignal_rawText :: "string option \<Rightarrow> string option" where
  "storeRawSignal_rawText itemRawText =
     (case itemRawText of
        None \<Rightarrow> None
      | Some t \<Rightarrow> if t = [] then None else Some (truncateText t MAX_RAW_TEXT_LENGTH))"


section \<open>JavaScript numbers in arithmetic (IEEE 754 binary64)\<close>

text \<open>
  A number of the ranker is a finite binary64 value, written as the real number it
  denotes (the two zeros are one), or \<open>None\<close> for NaN and the two infinities. Every arithmetic operation rounds its exact result to the nearest binary64
  value, ties to the even significand.
\<close>

type_synonym number = "real option"











section \<open>Data model (the Prisma schema, as the pipeline uses it)\<close>

type_synonym Date = int

datatype Category =
  PRODUCT_UPDATE | MONETIZATION_CHANGE | SAFETY_YOUTH_RISK | NSFW_CONTENT_POLICY
  | CULTURAL_TREND | REGULATORY_LEGAL | BUSINESS_FUNDING

datatype IngestStatus = PENDING | ACCEPTED | REJECTED | FAILED

datatype ClusterStatus = ACTIVE | STALE

record Entities =
  platforms :: "string list"
  companies :: "string list"
  people :: "string list"
  topics :: "string list"
  unknownPlatforms :: "string list option"

text \<open>A row of the \<open>Signal\<close> table. Nullable columns are options.\<close>

record Signal =
  signal_id :: string
  title :: "string option"
  publishedAt :: "Date option"
  normalizedSummary :: "string option"
  suggestedHeadline :: "string option"
  categories :: "Category list"
  entities :: "Entities option"
  confidence :: "real option"
  imageUrl :: "string option"
  llmProvider :: "string option"
  llmModel :: "string option"
  promptVersion :: "string option"
  llmRawResponse :: "string option"
  ingestStatus :: IngestStatus
  ingestReason :: "string option"
  normalizedAt :: "Date option"
  clusterId :: "string option"
  createdAt :: Date

text \<open>The per-component score the ranker stores with a cluster.\<close>

record ScoreBreakdown =
  sourceDiversity :: number
  velocity :: number
  credibility :: number
  category :: number
  recency :: number
  manual :: number

text \<open>A row of the \<open>StoryCluster\<close> table.\<close>

record StoryCluster =
  cluster_id :: string
  fingerprint :: string
  headline :: string
  contextSummary :: string
  searchText :: string
  cluster_categories :: "Category list"
  importanceScore :: int
  scoreBreakdown :: "ScoreBreakdown option"
  manualBoost :: int
  firstSeenAt :: Date
  lastSeenAt :: Date
  lastSignalAt :: Date
  status :: ClusterStatus

text \<open>The tables the clusterer reads and writes. A \<open>ClusterPlatform\<close> row is kept as
  the pair of the cluster's id and the platform's slug; \<open>platformTable\<close> holds the slugs
  of the \<open>Platform\<close> rows.\<close>

record db =
  clusters :: "StoryCluster list"
  signals :: "Signal list"
  clusterPlatforms :: "(string \<times> string) list"
  platformTable :: "string list"

datatype prisma_error =
  P2002 \<comment> \<open>unique constraint violation\<close>
  | P2025 \<comment> \<open>record to update not found\<close>

text \<open>\<open>a || b\<close> on a nullable string: the empty string is falsy as well.\<close>

definition str_or :: "string option \<Rightarrow> string \<Rightarrow> string" where
  "str_or a b = (case a of None \<Rightarrow> b | Some s \<Rightarrow> if s = [] then b else s)"

text \<open>Decimal digits of a natural number, as \<open>String(n)\<close> prints them.\<close>

definition digit_char :: "nat \<Rightarrow> char" where
  "digit_char d =
     (if d = 0 then CHR ''0'' else if d = 1 then CHR ''1'' else if d = 2 then CHR ''2''
      else if d = 3 then CHR ''3'' else if d = 4 then CHR ''4'' else if d = 5 then CHR ''5''
      else if d = 6 then CHR ''6'' else if d = 7 then CHR ''7'' else if d = 8 then CHR ''8''
      else CHR ''9'')"

function show_nat :: "nat \<Rightarrow> string" where
  "show_nat n = (if n < 10 then [digit_char n] else show_nat (n div 10) @ [digit_char (n mod 10)])"
  by pat_completeness auto
termination
  by (relation "measure id") auto

declare show_nat.simps [simp del]

text \<open>\<open>x.toFixed(2)\<close>: the integer \<open>n\<close> with \<open>n / 100\<close> closest to \<open>x\<close> (the
  larger one on a tie), printed with two decimals. Values of \<open>1e21\<close> and above, which
  print in exponent notation, do not occur (a confidence is at most 1).\<close>

definition toFixed2_nonneg :: "real \<Rightarrow> string" where
  "toFixed2_nonneg x =
     (let n = nat (round (x * 100))
      in show_nat (n div 100) @ ''.'' @ [digit_char ((n div 10) mod 10), digit_char (n mod 10)])"

definition toFixed2 :: "real \<Rightarrow> string" where
  "toFixed2 x = (if x < 0 then ''-'' @ toFixed2_nonneg (- x) else toFixed2_nonneg x)"

section \<open>Environment and pipeline runner (lib/env.ts, lib/pipeline/runner.ts)\<close>

text \<open>An environment variable as \<open>z.coerce.number()\<close> sees it: unset, or set to a
  string that \<open>Number\<close> turns into NaN or into a number.\<close>

datatype env_value = Unset | NotANumber | Number real

datatype env_error = InvalidEnvironment

text \<open>\<open>z.coerce.number().int().min(lo).default(d)\<close>: the default stands in for an
  unset variable; a set one must be an integer of at least \<open>lo\<close>, or \<open>validateEnv\<close>
  throws.\<close>

definition coerce_int_min_default :: "int \<Rightarrow> int \<Rightarrow> env_value \<Rightarrow> env_error + int" where
  "coerce_int_min_default lo d v =
     (case v of
        Unset \<Rightarrow> Inr d
      | NotANumber \<Rightarrow> Inl InvalidEnvironment
      | Number r \<Rightarrow>
          if of_int \<lfloor>r\<rfloor> = r \<and> lo \<le> \<lfloor>r\<rfloor> then Inr \<lfloor>r\<rfloor> else Inl InvalidEnvironment)"

definition DIRECT_MODE_MAX_ITEMS :: "env_value \<Rightarrow> env_error + int" where
  "DIRECT_MODE_MAX_ITEMS = coerce_int_min_default 1 30"

definition DIRECT_MODE_TIMEOUT_MS :: "env_value \<Rightarrow> env_error + int" where
  "DIRECT_MODE_TIMEOUT_MS = coerce_int_min_default 1000 55000"

definition DIRECT_MODE_LLM_CONCURRENCY :: "env_value \<Rightarrow> env_error + int" where
  "DIRECT_MODE_LLM_CONCURRENCY = coerce_int_min_default 1 3"

text \<open>The fields the constructor of \<open>DirectPipelineRunner\<close> reads from the
  environment.\<close>

record DirectPipelineRunner =
  maxItems :: int
  timeoutMs :: int
  llmConcurrency :: int

definition newDirectPipelineRunner ::
  "env_value \<Rightarrow> env_value \<Rightarrow> env_value \<Rightarrow> env_error + DirectPipelineRunner" where
  "newDirectPipelineRunner envMaxItems envTimeout envConcurrency =
     (case DIRECT_MODE_MAX_ITEMS envMaxItems of
        Inl e \<Rightarrow> Inl e
      | Inr m \<Rightarrow>
     (case DIRECT_MODE_TIMEOUT_MS envTimeout of
        Inl e \<Rightarrow> Inl e
      | Inr t \<Rightarrow>
     (case DIRECT_MODE_LLM_CONCURRENCY envConcurrency of
        Inl e \<Rightarrow> Inl e
      | Inr c \<Rightarrow> Inr \<lparr>maxItems = m, timeoutMs = t, llmConcurrency = c\<rparr>)))"

text \<open>The time check at the head of each normalization task (\<open>normalizeSignals\<close>) and
  of each clustering step (\<open>clusterSignals\<close>): true when the task is skipped.\<close>

definition normalizeTimeCheck :: "DirectPipelineRunner \<Rightarrow> int \<Rightarrow> int \<Rightarrow> bool" where
  "normalizeTimeCheck runner startTime now = (now - startTime > timeoutMs runner - 10000)"

definition clusterTimeCheck :: "DirectPipelineRunner \<Rightarrow> int \<Rightarrow> int \<Rightarrow> bool" where
  "clusterTimeCheck runner startTime now = (now - startTime > timeoutMs runner - 5000)"

section \<open>Normalizer (lib/pipeline/normalize.ts)\<close>

record NormalizeInput =
  in_signalId :: string
  in_title :: "string option"
  in_url :: string
  in_sourceName :: string
  in_publishedAt :: "Date option"
  in_rawText :: "string option"

text \<open>What the LLM provider returns once the response has parsed and validated
  (\<open>NormalizeResultSchema\<close>): the confidence lies in \<open>[0, 1]\<close>.\<close>

record NormalizeResult =
  r_summary :: string
  r_suggestedHeadline :: string
  r_categories :: "Category list"
  r_entities :: Entities
  r_confidence :: real

record LLMResponse =
  result :: NormalizeResult
  rawResponse :: string
  model :: string
  rsp_promptVersion :: string

record NormalizeOutput =
  o_signalId :: string
  o_success :: bool
  o_ingestStatus :: IngestStatus
  o_ingestReason :: "string option"
  o_normalizedSummary :: "string option"
  o_suggestedHeadline :: "string option"
  o_categories :: "Category list option"
  o_entities :: "Entities option"
  o_confidence :: "real option"
  o_imageUrl :: "string option"
  o_llmProvider :: "string option"
  o_llmModel :: "string option"
  o_promptVersion :: "string option"
  o_llmRawResponse :: "string option"

definition MAX_RAW_RESPONSE_LENGTH :: nat where
  "MAX_RAW_RESPONSE_LENGTH = 20000"

definition MIN_TEXT_LENGTH :: nat where
  "MIN_TEXT_LENGTH = 50"

definition MIN_CONFIDENCE_THRESHOLD :: real where
  "MIN_CONFIDENCE_THRESHOLD = 0.6"

text \<open>An output with only the always-present fields set.\<close>

definition bareOutput :: "string \<Rightarrow> bool \<Rightarrow> IngestStatus \<Rightarrow> string option \<Rightarrow> NormalizeOutput" where
  "bareOutput sid ok st reason =
     \<lparr>o_signalId = sid, o_success = ok, o_ingestStatus = st, o_ingestReason = reason,
      o_normalizedSummary = None, o_suggestedHeadline = None, o_categories = None,
      o_entities = None, o_confidence = None, o_imageUrl = None, o_llmProvider = None,
      o_llmModel = None, o_promptVersion = None, o_llmRawResponse = None\<rparr>"

text \<open>\<open>textParts.join('\n\n')\<close> over the truthy ones of title and raw text.\<close>

definition buildText :: "string option \<Rightarrow> string option \<Rightarrow> string" where
  "buildText t r =
     (let t' = str_or t []; r' = str_or r []
      in if t' = [] then r' else if r' = [] then t' else t' @ [CHR 0x0A, CHR 0x0A] @ r')"

text \<open>\<open>s.toLowerCase()\<close> and \<open>s.trim()\<close> on ASCII text, and the slug normalisation
  \<open>s.toLowerCase().trim().replace(/\s+/g, '-')\<close>.\<close>

definition toLowerCase_char :: "char \<Rightarrow> char" where
  "toLowerCase_char c =
     (case map_of (zip ''ABCDEFGHIJKLMNOPQRSTUVWXYZ'' ''abcdefghijklmnopqrstuvwxyz'') c of
        None \<Rightarrow> c
      | Some l \<Rightarrow> l)"

definition toLowerCase :: "string \<Rightarrow> string" where
  "toLowerCase s = map toLowerCase_char s"

definition isSpace :: "char \<Rightarrow> bool" where
  "isSpace c = (c \<in> set [CHR 0x09, CHR 0x0A, CHR 0x0B, CHR 0x0C, CHR 0x0D, CHR '' ''])"

definition trim :: "string \<Rightarrow> string" where
  "trim s = rev (dropWhile isSpace (rev (dropWhile isSpace s)))"

function collapseSpaces :: "string \<Rightarrow> string" where
  "collapseSpaces [] = []"
| "collapseSpaces (c # cs) =
     (if isSpace c then CHR ''-'' # collapseSpaces (dropWhile isSpace cs)
      else c # collapseSpaces cs)"
  by pat_completeness auto
termination
  by (relation "measure length") (auto simp: less_Suc_eq_le length_dropWhile_le)

definition normalizeSlug :: "string \<Rightarrow> string" where
  "normalizeSlug s = collapseSpaces (trim (toLowerCase s))"

text \<open>\<open>validatePlatforms\<close>: the inferred slugs, split by membership in the
  \<open>Platform\<close> table.\<close>

definition validatePlatforms :: "string list \<Rightarrow> string list \<Rightarrow> string list \<times> string list" where
  "validatePlatforms platformSlugs inferredSlugs =
     (let normalizedSlugs = map normalizeSlug inferredSlugs
      in (filter (\<lambda>s. s \<in> set platformSlugs) normalizedSlugs,
          filter (\<lambda>s. s \<notin> set platformSlugs) normalizedSlugs))"

text \<open>
  \<open>normalizeSignal\<close>. The collaborators are arguments: \<open>providerName\<close> and
  \<open>provider\<close> (the LLM provider's \<open>normalize\<close> on the text: \<open>Inl\<close> is the message of
  the error it throws), the slugs of the \<open>Platform\<close> table, and \<open>ogImage\<close> (what
  \<open>fetchOgImage(url).catch(() => null)\<close> yields).
\<close>

definition normalizeSignal ::
  "string \<Rightarrow> (string \<Rightarrow> string + LLMResponse) \<Rightarrow> string list \<Rightarrow> string option
     \<Rightarrow> NormalizeInput \<Rightarrow> NormalizeOutput" where
  "normalizeSignal providerName provider platformSlugs ogImage input =
     (let text = buildText (in_title input) (in_rawText input)
      in if length text < MIN_TEXT_LENGTH
         then bareOutput (in_signalId input) False REJECTED
                (Some (''Text too short ('' @ show_nat (length text) @ '' chars, minimum ''
                       @ show_nat MIN_TEXT_LENGTH @ '')''))
         else
           (case provider text of
              Inl errorMessage \<Rightarrow>
                bareOutput (in_signalId input) False FAILED
                  (Some (''LLM error: '' @ errorMessage))
            | Inr response \<Rightarrow>
                let (knownPlatforms, unknown) =
                      validatePlatforms platformSlugs (platforms (r_entities (result response)));
                    conf = r_confidence (result response)
                in if conf < MIN_CONFIDENCE_THRESHOLD
                   then (bareOutput (in_signalId input) False REJECTED
                           (Some (''Low relevance to AI companions (confidence: ''
                                  @ toFixed2 conf @ '')'')))
                        \<lparr>o_confidence := Some conf,
                         o_llmProvider := Some providerName,
                         o_llmModel := Some (model response),
                         o_promptVersion := Some (rsp_promptVersion response),
                         o_llmRawResponse :=
                           Some (truncateText (rawResponse response) MAX_RAW_RESPONSE_LENGTH)\<rparr>
                   else (bareOutput (in_signalId input) True ACCEPTED None)
                        \<lparr>o_normalizedSummary := Some (r_summary (result response)),
                         o_suggestedHeadline := Some (r_suggestedHeadline (result response)),
                         o_categories := Some (r_categories (result response)),
                         o_entities :=
                           Some ((r_entities (result response))
                                 \<lparr>platforms := knownPlatforms, unknownPlatforms := Some unknown\<rparr>),
                         o_confidence := Some conf,
                         o_imageUrl := (case ogImage of None \<Rightarrow> None
                                        | Some u \<Rightarrow> if u = [] then None else Some u),
                         o_llmProvider := Some providerName,
                         o_llmModel := Some (model response),
                         o_promptVersion := Some (rsp_promptVersion response),
                         o_llmRawResponse :=
                           Some (truncateText (rawResponse response) MAX_RAW_RESPONSE_LENGTH)\<rparr>))"

text \<open>A Prisma update leaves a column alone when the new value is \<open>undefined\<close>.\<close>

definition set_opt :: "'a option \<Rightarrow> 'a option \<Rightarrow> 'a option" where
  "set_opt new old = (case new of None \<Rightarrow> old | Some v \<Rightarrow> Some v)"

text \<open>\<open>updateSignalWithNormalization\<close>, as the new value of the signal's row: status,
  reason and \<open>normalizedAt\<close> always; the other columns only for a successful output.\<close>

definition updateSignalWithNormalization :: "Date \<Rightarrow> NormalizeOutput \<Rightarrow> Signal \<Rightarrow> Signal" where
  "updateSignalWithNormalization now output row =
     (let row1 = row\<lparr>ingestStatus := o_ingestStatus output,
                     ingestReason := set_opt (o_ingestReason output) (ingestReason row),
                     normalizedAt := Some now\<rparr>
      in if o_success output
         then row1\<lparr>normalizedSummary := set_opt (o_normalizedSummary output) (normalizedSummary row1),
                   suggestedHeadline := set_opt (o_suggestedHeadline output) (suggestedHeadline row1),
                   categories := (case o_categories output of None \<Rightarrow> categories row1 | Some cs \<Rightarrow> cs),
                   entities := set_opt (o_entities output) (entities row1),
                   confidence := set_opt (o_confidence output) (confidence row1),
                   imageUrl := set_opt (o_imageUrl output) (imageUrl row1),
                   llmProvider := set_opt (o_llmProvider output) (llmProvider row1),
                   llmModel := set_opt (o_llmModel output) (llmModel row1),
                   promptVersion := set_opt (o_promptVersion output) (promptVersion row1),
                   llmRawResponse := set_opt (o_llmRawResponse output) (llmRawResponse row1)\<rparr>
         else row1)"

text \<open>\<open>normalizeAndUpdateSignal\<close>, on the row of the signal the input names.\<close>

definition normalizeAndUpdateSignal ::
  "string \<Rightarrow> (string \<Rightarrow> string + LLMResponse) \<Rightarrow> string list \<Rightarrow> string option \<Rightarrow> Date
     \<Rightarrow> NormalizeInput \<Rightarrow> Signal \<Rightarrow> Signal" where
  "normalizeAndUpdateSignal providerName provider platformSlugs ogImage now input row =
     updateSignalWithNormalization now
       (normalizeSignal providerName provider platformSlugs ogImage input) row"

text \<open>The row \<open>storeRawSignal\<close> creates: status \<open>PENDING\<close>, nothing normalized yet.\<close>

definition pendingSignal :: "string \<Rightarrow> string option \<Rightarrow> Date option \<Rightarrow> Date \<Rightarrow> Signal" where
  "pendingSignal sid t pub created =
     \<lparr>signal_id = sid, title = t, publishedAt = pub, normalizedSummary = None,
      suggestedHeadline = None, categories = [], entities = None, confidence = None,
      imageUrl = None, llmProvider = None, llmModel = None, promptVersion = None,
      llmRawResponse = None, ingestStatus = PENDING, ingestReason = None,
      normalizedAt = None, clusterId = None, createdAt = created\<rparr>"

subsection \<open>A low-confidence article\<close>

definition exampleInput :: NormalizeInput where
  "exampleInput =
     \<lparr>in_signalId = ''sig1'',
      in_title = Some ''ChatGPT Enterprise adoption grows across Fortune 500 firms'',
      in_url = ''https://example.com/chatgpt-enterprise'', in_sourceName = ''Example'',
      in_publishedAt = None, in_rawText = None\<rparr>"

definition exampleRaw :: string where
  "exampleRaw = ''{\"summary\":\"s\",\"suggestedHeadline\":\"h\",\"categories\":[\"BUSINESS_FUNDING\"],\"entities\":{},\"confidence\":0.45}''"

definition exampleResponse :: LLMResponse where
  "exampleResponse =
     \<lparr>result = \<lparr>r_summary = ''s'', r_suggestedHeadline = ''h'',
                 r_categories = [BUSINESS_FUNDING],
                 r_entities = \<lparr>platforms = [], companies = [], people = [], topics = [],
                               unknownPlatforms = None\<rparr>,
                 r_confidence = 0.45\<rparr>,
      rawResponse = exampleRaw, model = ''gpt-4o-mini'', rsp_promptVersion = ''v1.1''\<rparr>"

section \<open>Clusterer (lib/pipeline/cluster.ts)\<close>

text \<open>\<open>signal.entities?.platforms || []\<close>.\<close>

definition signalPlatforms :: "Signal \<Rightarrow> string list" where
  "signalPlatforms signal = (case entities signal of None \<Rightarrow> [] | Some e \<Rightarrow> platforms e)"

text \<open>\<open>signal.publishedAt || signal.createdAt\<close>: a \<open>Date\<close> object is truthy, so only
  null falls through.\<close>

definition publishedOrCreated :: "Signal \<Rightarrow> Date" where
  "publishedOrCreated signal = (case publishedAt signal of None \<Rightarrow> createdAt signal | Some p \<Rightarrow> p)"

text \<open>
  \<open>createNewCluster\<close>. \<open>newId\<close> is the id the database generates and \<open>dbNow\<close> its
  clock, for the columns left to their defaults (\<open>importanceScore\<close>, \<open>manualBoost\<close>,
  \<open>lastSeenAt\<close>). The insert fails with P2002 on a fingerprint (or id) already present.
\<close>

definition createNewCluster ::
  "Signal \<Rightarrow> string \<Rightarrow> string \<Rightarrow> string \<Rightarrow> Date \<Rightarrow> db \<Rightarrow> prisma_error + (StoryCluster \<times> db)" where
  "createNewCluster signal fp stext newId dbNow d =
     (let hl = truncateRequired (str_or (suggestedHeadline signal) ''Untitled Story'')
                 Field_clusterHeadline;
          cs = truncateRequired (str_or (normalizedSummary signal) []) Field_contextSummary
      in if fp \<in> set (map fingerprint (clusters d)) \<or> newId \<in> set (map cluster_id (clusters d))
         then Inl P2002
         else
           let cluster = \<lparr>cluster_id = newId, fingerprint = fp, headline = hl,
                          contextSummary = cs, searchText = stext,
                          cluster_categories = categories signal,
                          importanceScore = 0,
      scoreBreakdown = None, manualBoost = 0,
                          firstSeenAt = publishedOrCreated signal,
                          lastSeenAt = dbNow,
                          lastSignalAt = createdAt signal,
                          status = ACTIVE\<rparr>;
               platformSlugs = signalPlatforms signal;
               found = filter (\<lambda>p. p \<in> set platformSlugs) (platformTable d)
           in Inr (cluster,
                   d\<lparr>clusters := clusters d @ [cluster],
                     clusterPlatforms := clusterPlatforms d @ map (\<lambda>p. (newId, p)) found\<rparr>))"

text \<open>\<open>attachSignalToCluster\<close>, with \<open>now\<close> the value of \<open>new Date()\<close>. Each update
  fails with P2025 when its row does not exist.\<close>

definition attachSignalToCluster :: "string \<Rightarrow> string \<Rightarrow> Date \<Rightarrow> db \<Rightarrow> prisma_error + db" where
  "attachSignalToCluster signalId cid now d =
     (if signalId \<notin> set (map signal_id (signals d)) then Inl P2025
      else if cid \<notin> set (map cluster_id (clusters d)) then Inl P2025
      else Inr (d\<lparr>signals :=
                     map (\<lambda>s. if signal_id s = signalId then s\<lparr>clusterId := Some cid\<rparr> else s)
                       (signals d),
                   clusters :=
                     map (\<lambda>c. if cluster_id c = cid then c\<lparr>lastSignalAt := now, lastSeenAt := now\<rparr>
                               else c)
                       (clusters d)\<rparr>))"

text \<open>The states the two operations reach from a database without clusters.\<close>

inductive reachable :: "db \<Rightarrow> bool" where
  reachable_init: "clusters d = [] \<Longrightarrow> reachable d"
| reachable_create:
    "reachable d \<Longrightarrow> createNewCluster signal fp stext newId dbNow d = Inr (c, d')
       \<Longrightarrow> reachable d'"
| reachable_attach:
    "reachable d \<Longrightarrow> attachSignalToCluster signalId cid now d = Inr d' \<Longrightarrow> reachable d'"

text \<open>The same, when no signal is dated after its own creation and no attachment is
  stamped earlier than the cluster's latest signal.\<close>

inductive reachable_in_time :: "db \<Rightarrow> bool" where
  in_time_init: "clusters d = [] \<Longrightarrow> reachable_in_time d"
| in_time_create:
    "reachable_in_time d \<Longrightarrow> publishedOrCreated signal \<le> createdAt signal
       \<Longrightarrow> createNewCluster signal fp stext newId dbNow d = Inr (c, d')
       \<Longrightarrow> reachable_in_time d'"
| in_time_attach:
    "reachable_in_time d
       \<Longrightarrow> list_all (\<lambda>c. cluster_id c \<noteq> cid \<or> lastSignalAt c \<le> now) (clusters d)
       \<Longrightarrow> attachSignalToCluster signalId cid now d = Inr d' \<Longrightarrow> reachable_in_time d'"

text \<open>Invariant 4 of the data model: \<open>lastSignalAt \<ge> firstSeenAt\<close> on every cluster.\<close>

definition lastSignalAfterFirstSeen :: "db \<Rightarrow> bool" where
  "lastSignalAfterFirstSeen d = list_all (\<lambda>c. firstSeenAt c \<le> lastSignalAt c) (clusters d)"

subsection \<open>A signal created at 1000, clustered at 1200 and attached at 1500\<close>

definition sampleSignal :: "Date option \<Rightarrow> Signal" where
  "sampleSignal pub = (pendingSignal ''sig1'' (Some ''Replika update'') pub 1000)
     \<lparr>ingestStatus := ACCEPTED, suggestedHeadline := Some ''Replika ships voice calls''\<rparr>"

definition sampleDb :: "Date option \<Rightarrow> db" where
  "sampleDb pub =
     \<lparr>clusters = [], signals = [sampleSignal pub], clusterPlatforms = [], platformTable = []\<rparr>"

definition sampleCluster :: "Date \<Rightarrow> Date \<Rightarrow> Date \<Rightarrow> StoryCluster" where
  "sampleCluster first seen sig =
     \<lparr>cluster_id = ''c1'', fingerprint = ''fp'', headline = ''Replika ships voice calls'',
      contextSummary = [], searchText = ''Replika ships voice calls'',
      cluster_categories = [], importanceScore = 0,
      scoreBreakdown = None, manualBoost = 0,
      firstSeenAt = first, lastSeenAt = seen, lastSignalAt = sig, status = ACTIVE\<rparr>"

definition createdDb :: "Date option \<Rightarrow> db" where
  "createdDb pub =
     (sampleDb pub)\<lparr>clusters := [sampleCluster (publishedOrCreated (sampleSignal pub)) 1200 1000]\<rparr>"

definition attachedDb :: "Date option \<Rightarrow> db" where
  "attachedDb pub =
     \<lparr>clusters = [sampleCluster (publishedOrCreated (sampleSignal pub)) 1500 1500],
      signals = [(sampleSignal pub)\<lparr>clusterId := Some ''c1''\<rparr>],
      clusterPlatforms = [], platformTable = []\<rparr>"

section \<open>Ranker (lib/pipeline/rank.ts)\<close>

text \<open>
  The ranker computes in binary64: each product, quotient and sum below is rounded.
  Counts, the category weights and the differences of two time values (integers of
  magnitude below \<open>2 ^ 53\<close>) are exact.
\<close>











subsection \<open>The formula of the specification, over the real numbers\<close>









subsection \<open>The components as the specification words them, in binary64\<close>









subsection \<open>A platform with correctly rounded functions\<close>


subsection \<open>The ranking scenario: three domains of weight 0.9\<close>







subsection \<open>Two domains of weight 0.9 and 0.45, no signal in the last hour\<close>



section \<open>TF-IDF similarity (lib/pipeline/similarity.ts)\<close>

text \<open>Frequencies, weights and cosines are taken over the real numbers here, without
  the rounding of binary64.\<close>

definition STOPWORDS :: "string list" where
  "STOPWORDS =
     [''the'', ''a'', ''an'', ''and'', ''or'', ''but'', ''in'', ''on'', ''at'', ''to'', ''for'',
      ''of'', ''with'', ''by'', ''from'', ''as'', ''is'', ''was'', ''are'', ''were'', ''been'',
      ''be'', ''have'', ''has'', ''had'', ''do'', ''does'', ''did'', ''will'', ''would'',
      ''could'', ''should'', ''may'', ''might'', ''must'', ''shall'', ''can'', ''this'',
      ''that'', ''these'', ''those'', ''it'', ''its'', ''they'', ''them'', ''their'',
      ''we'', ''us'', ''our'', ''you'', ''your'', ''he'', ''she'', ''him'', ''her'', ''his'',
      ''i'', ''me'', ''my'', ''not'', ''no'', ''yes'', ''so'', ''if'', ''then'', ''than'',
      ''when'', ''where'', ''what'', ''which'', ''who'', ''how'', ''why'', ''all'', ''each'',
      ''every'', ''both'', ''few'', ''more'', ''most'', ''other'', ''some'', ''such'',
      ''only'', ''own'', ''same'', ''also'', ''just'', ''now'', ''new'', ''says'', ''said'',
      ''like'', ''get'', ''got'', ''one'', ''two'', ''first'', ''last'', ''being'', ''make'',
      ''made'', ''use'', ''using'', ''used'', ''via'', ''still'', ''even'', ''well'']"

text \<open>\<open>.replace(/[^a-z0-9\s]/g, ' ')\<close>.\<close>

definition isTermChar :: "char \<Rightarrow> bool" where
  "isTermChar c = (c \<in> set ''abcdefghijklmnopqrstuvwxyz0123456789'' \<or> isSpace c)"

definition replaceNonTerm :: "string \<Rightarrow> string" where
  "replaceNonTerm s = map (\<lambda>c. if isTermChar c then c else CHR '' '') s"

text \<open>\<open>.split(/\s+/)\<close>: the pieces between the runs of white space, an empty piece
  before a leading and after a trailing run.\<close>

function splitSpaces :: "string \<Rightarrow> string list" where
  "splitSpaces s =
     (let w = takeWhile (\<lambda>c. \<not> isSpace c) s;
          r = dropWhile (\<lambda>c. \<not> isSpace c) s
      in if r = [] then [w] else w # splitSpaces (dropWhile isSpace (tl r)))"
  by pat_completeness auto
termination
proof (relation "measure length", simp, goal_cases)
  case (1 s w r)
  have "length (dropWhile isSpace (tl r)) \<le> length (tl r)"
    by (rule length_dropWhile_le)
  also have "\<dots> < length r"
    using 1 by (cases r) auto
  also have "length r \<le> length s"
    using 1 by (simp add: length_dropWhile_le)
  finally show ?case
    by simp
qed

declare splitSpaces.simps [simp del]

definition tokenize :: "string \<Rightarrow> string list" where
  "tokenize text =
     filter (\<lambda>word. length word > 2 \<and> word \<notin> set STOPWORDS)
       (splitSpaces (replaceNonTerm (toLowerCase text)))"

text \<open>A \<open>Map<string, number>\<close> as the list of its entries in insertion order;
  \<open>map.set\<close> overwrites in place or appends.\<close>

type_synonym number_map = "(string \<times> real) list"

fun map_set :: "string \<Rightarrow> real \<Rightarrow> number_map \<Rightarrow> number_map" where
  "map_set k v [] = [(k, v)]"
| "map_set k v (e # m) = (if fst e = k then (k, v) # m else e # map_set k v m)"

text \<open>\<open>map.get(k) || d\<close>: the default replaces a missing entry and a zero.\<close>

definition get_or :: "number_map \<Rightarrow> string \<Rightarrow> real \<Rightarrow> real" where
  "get_or m k d = (case map_of m k of None \<Rightarrow> d | Some v \<Rightarrow> if v = 0 then d else v)"

definition increment :: "number_map \<Rightarrow> string \<Rightarrow> number_map" where
  "increment m k = map_set k (get_or m k 0 + 1) m"

definition computeTF :: "string list \<Rightarrow> number_map" where
  "computeTF tokens =
     (let tf = foldl increment [] tokens;
          maxFreq = foldl max 1 (map snd tf)
      in map (\<lambda>(term, freq). (term, freq / maxFreq)) tf)"

text \<open>\<open>new Set(doc)\<close> in iteration order: the first occurrence of each term.\<close>

definition uniqueTerms :: "string list \<Rightarrow> string list" where
  "uniqueTerms doc = foldl (\<lambda>acc term. if term \<in> set acc then acc else acc @ [term]) [] doc"

definition computeIDF :: "string list list \<Rightarrow> number_map" where
  "computeIDF documents =
     (let docCount = real (length documents);
          termDocCounts = foldl (\<lambda>m doc. foldl increment m (uniqueTerms doc)) [] documents
      in map (\<lambda>(term, count). (term, ln (docCount / count) + 1)) termDocCounts)"

definition computeTFIDF :: "string list \<Rightarrow> number_map \<Rightarrow> number_map" where
  "computeTFIDF tokens idf =
     map (\<lambda>(term, tfValue). (term, tfValue * get_or idf term (ln 10))) (computeTF tokens)"

definition cosineSimilarity :: "number_map \<Rightarrow> number_map \<Rightarrow> real" where
  "cosineSimilarity vec1 vec2 =
     (let dotProduct = foldl (\<lambda>acc (term, v). acc + v * get_or vec2 term 0) 0 vec1;
          norm1 = foldl (\<lambda>acc (term, v). acc + v * v) 0 vec1;
          norm2 = foldl (\<lambda>acc (term, v). acc + v * v) 0 vec2;
          magnitude = sqrt norm1 * sqrt norm2
      in if magnitude = 0 then 0 else dotProduct / magnitude)"

record SimilarityMatch =
  match_index :: nat
  match_similarity :: real

text \<open>The loop of \<open>findMostSimilar\<close> from index \<open>i\<close> on, \<open>bestMatch\<close> carried along.\<close>

fun bestMatchFrom ::
  "number_map \<Rightarrow> number_map \<Rightarrow> real \<Rightarrow> nat \<Rightarrow> string list list \<Rightarrow> SimilarityMatch option
     \<Rightarrow> SimilarityMatch option" where
  "bestMatchFrom queryVector idf threshold i [] bestMatch = bestMatch"
| "bestMatchFrom queryVector idf threshold i (c # cs) bestMatch =
     (let candidateVector = computeTFIDF c idf;
          s = cosineSimilarity queryVector candidateVector
      in bestMatchFrom queryVector idf threshold (Suc i) cs
           (if s \<ge> threshold
               \<and> (case bestMatch of None \<Rightarrow> True | Some b \<Rightarrow> s > match_similarity b)
            then Some \<lparr>match_index = i, match_similarity = s\<rparr>
            else bestMatch))"

definition findMostSimilar ::
  "string list \<Rightarrow> string list list \<Rightarrow> real \<Rightarrow> SimilarityMatch option" where
  "findMostSimilar queryTokens candidateTokens threshold =
     (if candidateTokens = [] then None
      else
        let allDocs = candidateTokens @ [queryTokens];
            idf = computeIDF allDocs;
            queryVector = computeTFIDF queryTokens idf
        in bestMatchFrom queryVector idf threshold 0 candidateTokens None)"

definition platformOverlapBonus :: "string list \<Rightarrow> string list \<Rightarrow> real" where
  "platformOverlapBonus platforms1 platforms2 =
     (if platforms1 = [] \<or> platforms2 = [] then 0
      else
        let set1 = uniqueTerms (map toLowerCase platforms1);
            set2 = uniqueTerms (map toLowerCase platforms2);
            overlap = length (filter (\<lambda>p. p \<in> set set2) set1)
        in min (real overlap * (2 / 10)) (4 / 10))"

section \<open>Phase 2 of cluster assignment (lib/pipeline/cluster.ts)\<close>

text \<open>\<open>z.coerce.number().min(lo).max(hi).default(d)\<close>.\<close>

definition coerce_number_range_default ::
  "real \<Rightarrow> real \<Rightarrow> real \<Rightarrow> env_value \<Rightarrow> env_error + real" where
  "coerce_number_range_default lo hi d v =
     (case v of
        Unset \<Rightarrow> Inr d
      | NotANumber \<Rightarrow> Inl InvalidEnvironment
      | Number r \<Rightarrow> if lo \<le> r \<and> r \<le> hi then Inr r else Inl InvalidEnvironment)"

definition CLUSTER_SIMILARITY_THRESHOLD :: "env_value \<Rightarrow> env_error + real" where
  "CLUSTER_SIMILARITY_THRESHOLD = coerce_number_range_default 0 1 (4 / 10)"

text \<open>A row of the phase-1 query of \<open>findCandidateClusters\<close>; \<open>cand_similarity\<close> is the
  trigram similarity the database computed.\<close>

record ClusterCandidate =
  cand_id :: string
  cand_fingerprint :: string
  cand_headline :: string
  cand_searchText :: string
  cand_similarity :: real

text \<open>\<open>tx.clusterPlatform.findMany({ where: { clusterId } })\<close>, mapped to the slugs.\<close>

definition clusterPlatformSlugs :: "db \<Rightarrow> string \<Rightarrow> string list" where
  "clusterPlatformSlugs d cid = map snd (filter (\<lambda>cp. fst cp = cid) (clusterPlatforms d))"

text \<open>
  \<open>findSimilarCluster\<close>, with \<open>threshold\<close> the value of
  \<open>env.CLUSTER_SIMILARITY_THRESHOLD\<close> and \<open>candidates\<close> the rows the phase-1 query
  returned for the search text. The index of a match is a position of \<open>candidates\<close>.
\<close>

definition findSimilarCluster ::
  "real \<Rightarrow> ClusterCandidate list \<Rightarrow> Signal \<Rightarrow> string \<Rightarrow> db \<Rightarrow> StoryCluster option" where
  "findSimilarCluster threshold candidates signal stext d =
     (if candidates = [] then None
      else
        let signalTokens = tokenize stext;
            candidateTokens = map (\<lambda>c. tokenize (cand_searchText c)) candidates
        in case findMostSimilar signalTokens candidateTokens threshold of
             None \<Rightarrow> None
           | Some match \<Rightarrow>
               let bestCandidate = candidates ! match_index match;
                   bonus = platformOverlapBonus (signalPlatforms signal)
                             (clusterPlatformSlugs d (cand_id bestCandidate));
                   adjustedSimilarity = match_similarity match + bonus
               in if adjustedSimilarity < threshold then None
                  else find (\<lambda>c. cluster_id c = cand_id bestCandidate) (clusters d))"

subsection \<open>The adjusted score of the specification\<close>

text \<open>The cosine of candidate \<open>c\<close> with the signal's search text, over the corpus of
  all candidates and the signal, plus the platform-overlap bonus from the candidate's
  current platform set.\<close>

definition spec_adjustedScore ::
  "ClusterCandidate list \<Rightarrow> Signal \<Rightarrow> string \<Rightarrow> db \<Rightarrow> ClusterCandidate \<Rightarrow> real" where
  "spec_adjustedScore candidates signal stext d c =
     (let idf = computeIDF (map (\<lambda>c. tokenize (cand_searchText c)) candidates @ [tokenize stext])
      in cosineSimilarity (computeTFIDF (tokenize stext) idf)
           (computeTFIDF (tokenize (cand_searchText c)) idf)
         + platformOverlapBonus (signalPlatforms signal) (clusterPlatformSlugs d (cand_id c)))"

subsection \<open>A signal about a story that already has a cluster\<close>

definition voiceSignal :: Signal where
  "voiceSignal = (pendingSignal ''sig2'' (Some ''Replika launches voice calls'') None 2000)
     \<lparr>ingestStatus := ACCEPTED,
      suggestedHeadline := Some ''Replika launches voice calls'',
      entities := Some \<lparr>platforms = [''replika''], companies = [], people = [], topics = [],
                        unknownPlatforms = None\<rparr>\<rparr>"

definition voiceCandidate :: ClusterCandidate where
  "voiceCandidate =
     \<lparr>cand_id = ''c1'', cand_fingerprint = ''fp'',
      cand_headline = ''Replika voice calling launched'',
      cand_searchText = ''Replika voice calling launched'', cand_similarity = 6 / 10\<rparr>"

definition voiceDb :: db where
  "voiceDb =
     \<lparr>clusters = [(sampleCluster 1000 1000 1000)
                    \<lparr>headline := ''Replika voice calling launched'',
                     searchText := ''Replika voice calling launched''\<rparr>],
      signals = [voiceSignal],
      clusterPlatforms = [(''c1'', ''replika'')],
      platformTable = [''replika'', ''character-ai'']\<rparr>"

section \<open>Platform functions of the cursor: base64url and JSON\<close>

text \<open>
  A string is a list of 8-bit characters, the UTF-8 bytes of the text, so
  \<open>Buffer.from(s)\<close> and \<open>buffer.toString()\<close> keep the list as it is.
\<close>

subsection \<open>\<open>buffer.toString('base64url')\<close> and \<open>Buffer.from(s, 'base64url')\<close>\<close>

definition base64url_alphabet :: string where
  "base64url_alphabet = ''ABCDEFGHIJKLMNOPQRSTUVWXYZabcdefghijklmnopqrstuvwxyz0123456789-_''"

definition b64char :: "nat \<Rightarrow> char" where
  "b64char i = base64url_alphabet ! (i mod 64)"

text \<open>The decoder reads both alphabets: \<open>+\<close> and \<open>-\<close> are 62, \<open>/\<close> and \<open>_\<close> are 63.\<close>

definition b64val :: "char \<Rightarrow> nat option" where
  "b64val c = map_of (zip (base64url_alphabet @ ''+/'') ([0..<64] @ [62, 63])) c"

text \<open>Bytes to text: groups of three bytes give four characters; one or two trailing
  bytes give two or three; base64url has no padding.\<close>

fun base64url_encode :: "nat list \<Rightarrow> string" where
  "base64url_encode [] = []"
| "base64url_encode [a] = [b64char (a div 4), b64char ((a mod 4) * 16)]"
| "base64url_encode [a, b] =
     [b64char (a div 4), b64char ((a mod 4) * 16 + b div 16), b64char ((b mod 16) * 4)]"
| "base64url_encode (a # b # c # bytes) =
     [b64char (a div 4), b64char ((a mod 4) * 16 + b div 16),
      b64char ((b mod 16) * 4 + c div 64), b64char (c mod 64)] @ base64url_encode bytes"

text \<open>Text to bytes, as Node decodes: characters outside the alphabet are skipped,
  decoding stops at the first \<open>=\<close>, and a trailing group of two or three characters
  gives one or two bytes (a single trailing character gives none).\<close>

fun decode_sextets :: "nat list \<Rightarrow> nat list" where
  "decode_sextets (a # b # c # d # rest) =
     [a * 4 + b div 16, (b mod 16) * 16 + c div 4, (c mod 4) * 64 + d] @ decode_sextets rest"
| "decode_sextets [a, b, c] = [a * 4 + b div 16, (b mod 16) * 16 + c div 4]"
| "decode_sextets [a, b] = [a * 4 + b div 16]"
| "decode_sextets [a] = []"
| "decode_sextets [] = []"

definition base64url_decode :: "string \<Rightarrow> nat list" where
  "base64url_decode s =
     decode_sextets (List.map_filter b64val (takeWhile (\<lambda>c. c \<noteq> CHR ''='') s))"

definition bytes_of :: "string \<Rightarrow> nat list" where
  "bytes_of s = map of_char s"

definition string_of :: "nat list \<Rightarrow> string" where
  "string_of bytes = map char_of bytes"

subsection \<open>JSON values\<close>

text \<open>A number is kept as the exact decimal its literal denotes (JavaScript rounds it
  to a double; the two agree on every integer below \<open>2^53\<close> in magnitude).\<close>

datatype json =
  JNull | JBool bool | JNum rat | JStr string | JArr "json list" | JObj "(string \<times> json) list"

text \<open>A JavaScript value read off a parsed document: \<open>None\<close> is \<open>undefined\<close>.\<close>

type_synonym jsvalue = "json option"

subsection \<open>\<open>JSON.stringify\<close> of an integer and of a string\<close>

definition show_int :: "int \<Rightarrow> string" where
  "show_int i = (if i < 0 then CHR ''-'' # show_nat (nat (- i)) else show_nat (nat i))"

definition hexdigit :: "nat \<Rightarrow> char" where
  "hexdigit d = ''0123456789abcdef'' ! (d mod 16)"

text \<open>QuoteJSONString: the quote, the backslash and the control characters are
  escaped.\<close>

definition quote_char :: "char \<Rightarrow> string" where
  "quote_char c =
     (if c = CHR 0x22 then [CHR 0x5C, CHR 0x22]
      else if c = CHR 0x5C then [CHR 0x5C, CHR 0x5C]
      else if c = CHR 0x08 then [CHR 0x5C, CHR ''b'']
      else if c = CHR 0x09 then [CHR 0x5C, CHR ''t'']
      else if c = CHR 0x0A then [CHR 0x5C, CHR ''n'']
      else if c = CHR 0x0C then [CHR 0x5C, CHR ''f'']
      else if c = CHR 0x0D then [CHR 0x5C, CHR ''r'']
      else if (of_char c :: nat) < 32
        then [CHR 0x5C, CHR ''u'', CHR ''0'', CHR ''0'',
              hexdigit ((of_char c :: nat) div 16), hexdigit ((of_char c :: nat) mod 16)]
      else [c])"

definition JSON_quote :: "string \<Rightarrow> string" where
  "JSON_quote s = [CHR 0x22] @ concat (map quote_char s) @ [CHR 0x22]"

subsection \<open>\<open>JSON.parse\<close>\<close>

datatype token =
  TLBrace | TRBrace | TLBracket | TRBracket | TColon | TComma
  | TTrue | TFalse | TNull | TNum rat | TStr string

definition isDigit :: "char \<Rightarrow> bool" where
  "isDigit c = (c \<in> set ''0123456789'')"

definition digit_val :: "char \<Rightarrow> nat" where
  "digit_val c = (case map_of (zip ''0123456789'' [0..<10]) c of None \<Rightarrow> 0 | Some d \<Rightarrow> d)"

definition digits_to_nat :: "string \<Rightarrow> nat" where
  "digits_to_nat ds = foldl (\<lambda>a c. 10 * a + digit_val c) 0 ds"

definition hexval :: "char \<Rightarrow> nat option" where
  "hexval c = map_of (zip ''0123456789abcdefABCDEF''
                       ([0..<16] @ [10, 11, 12, 13, 14, 15])) c"

definition hex4 :: "char \<Rightarrow> char \<Rightarrow> char \<Rightarrow> char \<Rightarrow> nat option" where
  "hex4 a b c d =
     (case (hexval a, hexval b, hexval c, hexval d) of
        (Some w, Some x, Some y, Some z) \<Rightarrow> Some (w * 4096 + x * 256 + y * 16 + z)
      | _ \<Rightarrow> None)"

text \<open>The UTF-8 bytes of a code unit named by a \<open>\uXXXX\<close> escape (a surrogate half
  is kept as its own three bytes).\<close>

definition utf8_of_unit :: "nat \<Rightarrow> string" where
  "utf8_of_unit u =
     (if u < 128 then [char_of u]
      else if u < 2048 then [char_of (192 + u div 64), char_of (128 + u mod 64)]
      else [char_of (224 + u div 4096), char_of (128 + (u div 64) mod 64),
            char_of (128 + u mod 64)])"

definition simple_escape :: "char \<Rightarrow> char option" where
  "simple_escape e =
     map_of [(CHR 0x22, CHR 0x22), (CHR 0x5C, CHR 0x5C), (CHR ''/'', CHR ''/''),
             (CHR ''b'', CHR 0x08), (CHR ''f'', CHR 0x0C), (CHR ''n'', CHR 0x0A),
             (CHR ''r'', CHR 0x0D), (CHR ''t'', CHR 0x09)] e"

text \<open>One character of a string literal's body, escaped or not: its bytes and the
  input after it. An unescaped control character is an error.\<close>

definition lex_char :: "string \<Rightarrow> (string \<times> string) option" where
  "lex_char s =
     (case s of
        [] \<Rightarrow> None
      | c # cs \<Rightarrow>
          if c = CHR 0x5C then
            (case cs of
               [] \<Rightarrow> None
             | e # cs1 \<Rightarrow>
                 if e = CHR ''u'' then
                   (if length cs1 < 4 then None
                    else (case hex4 (cs1 ! 0) (cs1 ! 1) (cs1 ! 2) (cs1 ! 3) of
                            None \<Rightarrow> None
                          | Some u \<Rightarrow> Some (utf8_of_unit u, drop 4 cs1)))
                 else (case simple_escape e of
                         None \<Rightarrow> None
                       | Some ch \<Rightarrow> Some ([ch], cs1)))
          else if (of_char c :: nat) < 32 then None
          else Some ([c], cs))"

lemma lex_char_shorter: "lex_char s = Some (chunk, rest) \<Longrightarrow> length rest < length s"
  by (cases s; cases "tl s")
     (auto simp: lex_char_def split: if_splits option.splits)

text \<open>The body of a string literal, after its opening quote: the contents and the
  input left after the closing quote.\<close>

function lex_string :: "string \<Rightarrow> (string \<times> string) option" where
  "lex_string s =
     (case s of
        [] \<Rightarrow> None
      | c # cs \<Rightarrow>
          if c = CHR 0x22 then Some ([], cs)
          else (case lex_char s of
                  None \<Rightarrow> None
                | Some (chunk, rest) \<Rightarrow>
                    (case lex_string rest of
                       None \<Rightarrow> None
                     | Some (str, rest') \<Rightarrow> Some (chunk @ str, rest'))))"
  by pat_completeness auto
termination
proof (relation "measure length")
  show "wf (measure length)" by simp
next
  fix s :: string and c cs x chunk rest
  assume "s = c # cs" "lex_char s = Some x" "(chunk, rest) = x"
  then show "(rest, s) \<in> measure length"
    using lex_char_shorter [of s chunk rest] by simp
qed

declare lex_string.simps [simp del]

lemma lex_string_shorter: "lex_string s = Some (str, rest) \<Longrightarrow> length rest < length s"
proof (induction s arbitrary: str rest rule: lex_string.induct)
  case (1 s)
  show ?case
  proof (cases s)
    case Nil
    with "1.prems" show ?thesis by (simp add: lex_string.simps)
  next
    case (Cons c cs)
    show ?thesis
    proof (cases "c = CHR 0x22")
      case True
      with "1.prems" Cons show ?thesis by (simp add: lex_string.simps)
    next
      case False
      from "1.prems" Cons False obtain chunk r str' where
        lc: "lex_char s = Some (chunk, r)" and ls: "lex_string r = Some (str', rest)"
        by (subst (asm) lex_string.simps) (auto split: option.splits)
      have "length rest < length r"
        by (rule "1.IH" [OF Cons False lc refl ls])
      with lex_char_shorter [OF lc] show ?thesis by simp
    qed
  qed
qed

text \<open>A number literal: \<open>-? (0 | [1-9][0-9]*) (. [0-9]+)? ([eE] [+-]? [0-9]+)?\<close>.\<close>

definition lex_int_part :: "string \<Rightarrow> (string \<times> string) option" where
  "lex_int_part s =
     (case s of
        [] \<Rightarrow> None
      | c # cs \<Rightarrow>
          if c = CHR ''0'' then Some ([c], cs)
          else if isDigit c then Some (takeWhile isDigit s, dropWhile isDigit s)
          else None)"

definition lex_frac_part :: "string \<Rightarrow> (string \<times> string) option" where
  "lex_frac_part s =
     (case s of
        c # cs \<Rightarrow>
          if c = CHR ''.'' then
            (if takeWhile isDigit cs = [] then None
             else Some (takeWhile isDigit cs, dropWhile isDigit cs))
          else Some ([], s)
      | [] \<Rightarrow> Some ([], s))"

definition lex_exp_part :: "string \<Rightarrow> (int \<times> string) option" where
  "lex_exp_part s =
     (case s of
        c # cs \<Rightarrow>
          if c = CHR ''e'' \<or> c = CHR ''E'' then
            (let (neg, ds) =
                   (case cs of
                      d # cs1 \<Rightarrow>
                        if d = CHR ''-'' then (True, cs1)
                        else if d = CHR ''+'' then (False, cs1) else (False, cs)
                    | [] \<Rightarrow> (False, cs))
             in if takeWhile isDigit ds = [] then None
                else Some ((if neg then - 1 else 1) * int (digits_to_nat (takeWhile isDigit ds)),
                           dropWhile isDigit ds))
          else Some (0, s)
      | [] \<Rightarrow> Some (0, s))"

definition pow10 :: "int \<Rightarrow> rat" where
  "pow10 e = (if e < 0 then 1 / 10 ^ nat (- e) else 10 ^ nat e)"

definition lex_number :: "string \<Rightarrow> (rat \<times> string) option" where
  "lex_number s =
     (let (neg, s1) = (case s of c # cs \<Rightarrow> if c = CHR ''-'' then (True, cs) else (False, s)
                       | [] \<Rightarrow> (False, s))
      in case lex_int_part s1 of
           None \<Rightarrow> None
         | Some (ip, s2) \<Rightarrow>
             (case lex_frac_part s2 of
                None \<Rightarrow> None
              | Some (fp, s3) \<Rightarrow>
                  (case lex_exp_part s3 of
                     None \<Rightarrow> None
                   | Some (e, s4) \<Rightarrow>
                       Some ((if neg then - 1 else 1)
                               * (of_nat (digits_to_nat ip)
                                  + of_nat (digits_to_nat fp) / 10 ^ length fp)
                               * pow10 e,
                             s4))))"

definition isWhitespace :: "char \<Rightarrow> bool" where
  "isWhitespace c = (c \<in> set [CHR '' '', CHR 0x09, CHR 0x0A, CHR 0x0D])"

text \<open>\<open>s\<close> without the prefix \<open>p\<close>, when it starts with it.\<close>

definition strip_prefix :: "string \<Rightarrow> string \<Rightarrow> string option" where
  "strip_prefix p s = (if take (length p) s = p then Some (drop (length p) s) else None)"

definition punctuator :: "char \<Rightarrow> token option" where
  "punctuator c =
     map_of [(CHR ''{'', TLBrace), (CHR ''}'', TRBrace), (CHR ''['', TLBracket),
             (CHR '']'', TRBracket), (CHR '':'', TColon), (CHR '','', TComma)] c"

definition lex_literal :: "string \<Rightarrow> (token \<times> string) option" where
  "lex_literal s =
     (case strip_prefix ''true'' s of
        Some rest \<Rightarrow> Some (TTrue, rest)
      | None \<Rightarrow>
     (case strip_prefix ''false'' s of
        Some rest \<Rightarrow> Some (TFalse, rest)
      | None \<Rightarrow>
     (case strip_prefix ''null'' s of
        Some rest \<Rightarrow> Some (TNull, rest)
      | None \<Rightarrow> None)))"

text \<open>The token at the head of a non-empty input, and the input after it.\<close>

definition next_token :: "string \<Rightarrow> (token \<times> string) option" where
  "next_token s =
     (case s of
        [] \<Rightarrow> None
      | c # cs \<Rightarrow>
          (case punctuator c of
             Some t \<Rightarrow> Some (t, cs)
           | None \<Rightarrow>
               if c = CHR 0x22 then
                 (case lex_string cs of None \<Rightarrow> None | Some (str, rest) \<Rightarrow> Some (TStr str, rest))
               else if c = CHR ''-'' \<or> isDigit c then
                 (case lex_number s of None \<Rightarrow> None | Some (q, rest) \<Rightarrow> Some (TNum q, rest))
               else lex_literal s))"

lemma strip_prefix_shorter:
  "strip_prefix p s = Some rest \<Longrightarrow> p \<noteq> [] \<Longrightarrow> length rest < length s"
  by (cases p; cases s) (auto simp: strip_prefix_def split: if_splits)

lemma lex_number_shorter: "lex_number s = Some (q, rest) \<Longrightarrow> length rest < length s"
proof -
  have dw: "length (dropWhile isDigit xs) \<le> length xs" for xs
    by (rule length_dropWhile_le)
  have ip: "lex_int_part a = Some (x, b) \<Longrightarrow> length b < length a" for a x b
    using dw [of "tl a"]
    by (auto simp: lex_int_part_def split: list.splits if_splits)
  have fp: "lex_frac_part a = Some (x, b) \<Longrightarrow> length b \<le> length a" for a x b
    using dw [of "tl a"]
    by (auto simp: lex_frac_part_def split: list.splits if_splits)
  have ep: "lex_exp_part a = Some (e, b) \<Longrightarrow> length b \<le> length a" for a e b
    using dw [of "tl a"] dw [of "tl (tl a)"]
    by (auto simp: lex_exp_part_def Let_def split: list.splits if_splits)
  assume "lex_number s = Some (q, rest)"
  then obtain neg s1 ip' s2 fp' s3 e where
    s1: "(neg, s1) = (case s of c # cs \<Rightarrow> if c = CHR ''-'' then (True, cs) else (False, s)
                       | [] \<Rightarrow> (False, s))"
    and a: "lex_int_part s1 = Some (ip', s2)"
    and b: "lex_frac_part s2 = Some (fp', s3)"
    and c: "lex_exp_part s3 = Some (e, rest)"
    by (auto simp: lex_number_def Let_def split: prod.splits option.splits)
  from s1 have "length s1 \<le> length s"
    by (auto split: list.splits if_splits)
  with ip [OF a] fp [OF b] ep [OF c] show ?thesis by simp
qed

lemma lex_literal_shorter: "lex_literal s = Some (t, rest) \<Longrightarrow> length rest < length s"
  unfolding lex_literal_def
  by (auto split: option.splits dest!: strip_prefix_shorter)

lemma next_token_shorter:
  assumes "next_token s = Some (t, rest)"
  shows "length rest < length s"
proof (cases s)
  case Nil
  with assms show ?thesis by (simp add: next_token_def)
next
  case (Cons c cs)
  show ?thesis
  proof (cases "punctuator c")
    case (Some p)
    with assms Cons show ?thesis by (simp add: next_token_def)
  next
    case None
    show ?thesis
    proof (cases "c = CHR 0x22")
      case True
      with assms Cons None obtain str where "lex_string cs = Some (str, rest)"
        by (auto simp: next_token_def split: option.splits)
      from lex_string_shorter [OF this] show ?thesis by (simp add: Cons)
    next
      case notq: False
      show ?thesis
      proof (cases "c = CHR ''-'' \<or> isDigit c")
        case True
        with assms Cons None notq obtain q where "lex_number s = Some (q, rest)"
          by (auto simp: next_token_def split: option.splits)
        from lex_number_shorter [OF this] show ?thesis .
      next
        case False
        with assms Cons None notq have "lex_literal s = Some (t, rest)"
          by (simp add: next_token_def)
        from lex_literal_shorter [OF this] show ?thesis .
      qed
    qed
  qed
qed

function JSON_tokenize :: "string \<Rightarrow> token list option" where
  "JSON_tokenize s =
     (case dropWhile isWhitespace s of
        [] \<Rightarrow> Some []
      | c # cs \<Rightarrow>
          (case next_token (c # cs) of
             None \<Rightarrow> None
           | Some (t, rest) \<Rightarrow> map_option (Cons t) (JSON_tokenize rest)))"
  by pat_completeness auto
termination
proof (relation "measure length")
  show "wf (measure length)" by simp
next
  fix s :: string and c cs x t rest
  assume "dropWhile isWhitespace s = c # cs" "next_token (c # cs) = Some x" "(t, rest) = x"
  then have "length rest < length (dropWhile isWhitespace s)"
    using next_token_shorter [of "c # cs" t rest] by simp
  also have "\<dots> \<le> length s" by (rule length_dropWhile_le)
  finally show "(rest, s) \<in> measure length" by simp
qed

declare JSON_tokenize.simps [simp del]

text \<open>The parser: a stack of open arrays and objects, and what may come next.\<close>

datatype frame = InArr "json list" | InObj "(string \<times> json) list" "string option"

datatype expect =
  ExpValue | ExpValueOrClose | ExpKeyOrClose | ExpKey | ExpColon | ExpCommaOrClose

datatype pstate = Run "frame list" expect | Done json | Fail

definition after_value :: "json \<Rightarrow> frame list \<Rightarrow> pstate" where
  "after_value v st =
     (case st of
        [] \<Rightarrow> Done v
      | InArr xs # st' \<Rightarrow> Run (InArr (v # xs) # st') ExpCommaOrClose
      | InObj kvs None # st' \<Rightarrow> Fail
      | InObj kvs (Some k) # st' \<Rightarrow> Run (InObj ((k, v) # kvs) None # st') ExpCommaOrClose)"

definition close_array :: "frame list \<Rightarrow> pstate" where
  "close_array st =
     (case st of InArr xs # st' \<Rightarrow> after_value (JArr (rev xs)) st' | _ \<Rightarrow> Fail)"

definition close_object :: "frame list \<Rightarrow> pstate" where
  "close_object st =
     (case st of InObj kvs None # st' \<Rightarrow> after_value (JObj (rev kvs)) st' | _ \<Rightarrow> Fail)"

definition step_value :: "frame list \<Rightarrow> bool \<Rightarrow> token \<Rightarrow> pstate" where
  "step_value st mayClose t =
     (case t of
        TLBrace \<Rightarrow> Run (InObj [] None # st) ExpKeyOrClose
      | TLBracket \<Rightarrow> Run (InArr [] # st) ExpValueOrClose
      | TTrue \<Rightarrow> after_value (JBool True) st
      | TFalse \<Rightarrow> after_value (JBool False) st
      | TNull \<Rightarrow> after_value JNull st
      | TNum q \<Rightarrow> after_value (JNum q) st
      | TStr s \<Rightarrow> after_value (JStr s) st
      | TRBracket \<Rightarrow> if mayClose then close_array st else Fail
      | _ \<Rightarrow> Fail)"

definition step_key :: "frame list \<Rightarrow> bool \<Rightarrow> token \<Rightarrow> pstate" where
  "step_key st mayClose t =
     (case t of
        TStr k \<Rightarrow>
          (case st of InObj kvs None # st' \<Rightarrow> Run (InObj kvs (Some k) # st') ExpColon
           | _ \<Rightarrow> Fail)
      | TRBrace \<Rightarrow> if mayClose then close_object st else Fail
      | _ \<Rightarrow> Fail)"

definition step_after :: "frame list \<Rightarrow> token \<Rightarrow> pstate" where
  "step_after st t =
     (case t of
        TComma \<Rightarrow>
          (case st of
             InArr xs # st' \<Rightarrow> Run st ExpValue
           | InObj kvs k # st' \<Rightarrow> Run st ExpKey
           | [] \<Rightarrow> Fail)
      | TRBracket \<Rightarrow> close_array st
      | TRBrace \<Rightarrow> close_object st
      | _ \<Rightarrow> Fail)"

fun step :: "pstate \<Rightarrow> token \<Rightarrow> pstate" where
  "step (Run st ExpValue) t = step_value st False t"
| "step (Run st ExpValueOrClose) t = step_value st True t"
| "step (Run st ExpKeyOrClose) t = step_key st True t"
| "step (Run st ExpKey) t = step_key st False t"
| "step (Run st ExpColon) t = (case t of TColon \<Rightarrow> Run st ExpValue | _ \<Rightarrow> Fail)"
| "step (Run st ExpCommaOrClose) t = step_after st t"
| "step (Done v) t = Fail"
| "step Fail t = Fail"

text \<open>\<open>JSON.parse\<close>: \<open>None\<close> is the SyntaxError it throws.\<close>

definition JSON_parse :: "string \<Rightarrow> json option" where
  "JSON_parse s =
     (case JSON_tokenize s of
        None \<Rightarrow> None
      | Some toks \<Rightarrow> (case foldl step (Run [] ExpValue) toks of Done v \<Rightarrow> Some v | _ \<Rightarrow> None))"

text \<open>\<open>obj.key\<close> on a parsed object: the last of several equal keys stands.\<close>

definition property :: "(string \<times> json) list \<Rightarrow> string \<Rightarrow> jsvalue" where
  "property kvs k = map_of (rev kvs) k"

section \<open>Feed query (app/api/clusters/route.ts)\<close>

subsection \<open>Cursors\<close>

text \<open>What \<open>decodeCursor\<close> returns: the three properties as they were read off the
  parsed value, each possibly \<open>undefined\<close>.\<close>

record ClusterCursor =
  cursor_importanceScore :: jsvalue
  cursor_lastSignalAt :: jsvalue
  cursor_id :: jsvalue

text \<open>\<open>JSON.stringify({importanceScore, lastSignalAt, id})\<close> for an integer and two
  strings. The integer is printed in decimal, as every integer below \<open>10^21\<close> in
  magnitude is (the column is a 32-bit integer).\<close>

definition stringifyCursor :: "int \<Rightarrow> string \<Rightarrow> string \<Rightarrow> string" where
  "stringifyCursor n isoText ident =
     ''{\"importanceScore\":'' @ show_int n
     @ '',\"lastSignalAt\":'' @ JSON_quote isoText
     @ '',\"id\":'' @ JSON_quote ident @ ''}''"

text \<open>\<open>encodeCursor\<close>. \<open>toISOString\<close> is the platform's
  \<open>Date.prototype.toISOString\<close>.\<close>

definition encodeCursor :: "(Date \<Rightarrow> string) \<Rightarrow> StoryCluster \<Rightarrow> string" where
  "encodeCursor toISOString cluster =
     base64url_encode (bytes_of
       (stringifyCursor (importanceScore cluster) (toISOString (lastSignalAt cluster))
          (cluster_id cluster)))"

text \<open>\<open>decodeCursor\<close>: \<open>null\<close> (here \<open>None\<close>) when \<open>JSON.parse\<close> throws, or when it
  returns \<open>null\<close> and the property access throws; on any other value the three
  properties are read, \<open>undefined\<close> where the value has none.\<close>

definition decodeCursor :: "string \<Rightarrow> ClusterCursor option" where
  "decodeCursor cursor =
     (case JSON_parse (string_of (base64url_decode cursor)) of
        None \<Rightarrow> None
      | Some decoded \<Rightarrow>
          (case decoded of
             JNull \<Rightarrow> None
           | JObj kvs \<Rightarrow>
               Some \<lparr>cursor_importanceScore = property kvs ''importanceScore'',
                     cursor_lastSignalAt = property kvs ''lastSignalAt'',
                     cursor_id = property kvs ''id''\<rparr>
           | _ \<Rightarrow>
               Some \<lparr>cursor_importanceScore = None, cursor_lastSignalAt = None,
                     cursor_id = None\<rparr>))"

subsection \<open>The where clause\<close>

text \<open>The filters \<open>buildCursorWhere\<close> puts on the three columns. A \<open>Date\<close> operand
  is what \<open>new Date(value)\<close> gave: \<open>None\<close> is an invalid date.\<close>

datatype int_filter = IntEquals jsvalue | IntLt jsvalue

datatype date_filter = DateEquals "Date option" | DateLt "Date option"

datatype string_filter = StringLt jsvalue

record ClusterWhere =
  where_importanceScore :: "int_filter option"
  where_lastSignalAt :: "date_filter option"
  where_id :: "string_filter option"

text \<open>\<open>buildCursorWhere\<close>: the list is the \<open>OR\<close> of its three objects. \<open>newDate\<close> is
  the platform's \<open>new Date(value)\<close>.\<close>

definition buildCursorWhere :: "(jsvalue \<Rightarrow> Date option) \<Rightarrow> ClusterCursor \<Rightarrow> ClusterWhere list" where
  "buildCursorWhere newDate cursor =
     [\<lparr>where_importanceScore = Some (IntLt (cursor_importanceScore cursor)),
       where_lastSignalAt = None, where_id = None\<rparr>,
      \<lparr>where_importanceScore = Some (IntEquals (cursor_importanceScore cursor)),
       where_lastSignalAt = Some (DateLt (newDate (cursor_lastSignalAt cursor))),
       where_id = None\<rparr>,
      \<lparr>where_importanceScore = Some (IntEquals (cursor_importanceScore cursor)),
       where_lastSignalAt = Some (DateEquals (newDate (cursor_lastSignalAt cursor))),
       where_id = Some (StringLt (cursor_id cursor))\<rparr>]"

text \<open>
  How Prisma reads such a clause. An \<open>undefined\<close> operand means no condition; an
  operand of the wrong type (for the integer column anything but an integer, for the
  date column an invalid date, for the id anything but a string) is rejected when the
  query is built, and \<open>findMany\<close> throws. Ids compare in the order of the strings.
\<close>

definition is_integer :: "rat \<Rightarrow> bool" where
  "is_integer q = (of_int \<lfloor>q\<rfloor> = q)"

fun int_filter_valid :: "int_filter \<Rightarrow> bool" where
  "int_filter_valid (IntEquals None) = True"
| "int_filter_valid (IntEquals (Some (JNum q))) = is_integer q"
| "int_filter_valid (IntEquals (Some _)) = False"
| "int_filter_valid (IntLt None) = True"
| "int_filter_valid (IntLt (Some (JNum q))) = is_integer q"
| "int_filter_valid (IntLt (Some _)) = False"

fun int_filter_holds :: "int_filter \<Rightarrow> int \<Rightarrow> bool" where
  "int_filter_holds (IntEquals (Some (JNum q))) x = (x = \<lfloor>q\<rfloor>)"
| "int_filter_holds (IntLt (Some (JNum q))) x = (x < \<lfloor>q\<rfloor>)"
| "int_filter_holds _ x = True"

fun date_filter_valid :: "date_filter \<Rightarrow> bool" where
  "date_filter_valid (DateEquals t) = (t \<noteq> None)"
| "date_filter_valid (DateLt t) = (t \<noteq> None)"

fun date_filter_holds :: "date_filter \<Rightarrow> Date \<Rightarrow> bool" where
  "date_filter_holds (DateEquals (Some t)) x = (x = t)"
| "date_filter_holds (DateLt (Some t)) x = (x < t)"
| "date_filter_holds _ x = True"

fun string_filter_valid :: "string_filter \<Rightarrow> bool" where
  "string_filter_valid (StringLt None) = True"
| "string_filter_valid (StringLt (Some (JStr s))) = True"
| "string_filter_valid (StringLt (Some _)) = False"

fun string_filter_holds :: "string_filter \<Rightarrow> string \<Rightarrow> bool" where
  "string_filter_holds (StringLt (Some (JStr s))) x = (x < s)"
| "string_filter_holds _ x = True"

definition opt_all :: "('a \<Rightarrow> bool) \<Rightarrow> 'a option \<Rightarrow> bool" where
  "opt_all p v = (case v of None \<Rightarrow> True | Some a \<Rightarrow> p a)"

definition where_valid :: "ClusterWhere list \<Rightarrow> bool" where
  "where_valid ws =
     list_all (\<lambda>w. opt_all int_filter_valid (where_importanceScore w)
                  \<and> opt_all date_filter_valid (where_lastSignalAt w)
                  \<and> opt_all string_filter_valid (where_id w)) ws"

definition where_holds :: "ClusterWhere list \<Rightarrow> StoryCluster \<Rightarrow> bool" where
  "where_holds ws c =
     list_ex (\<lambda>w. opt_all (\<lambda>f. int_filter_holds f (importanceScore c)) (where_importanceScore w)
                 \<and> opt_all (\<lambda>f. date_filter_holds f (lastSignalAt c)) (where_lastSignalAt w)
                 \<and> opt_all (\<lambda>f. string_filter_holds f (cluster_id c)) (where_id w)) ws"

subsection \<open>The handler\<close>

datatype window = W24h | W7d | W30d

definition DAY :: int where "DAY = 24 * (60 * (60 * 1000))"

fun getWindowStart :: "Date \<Rightarrow> window \<Rightarrow> Date" where
  "getWindowStart now W24h = now - DAY"
| "getWindowStart now W7d = now - 7 * DAY"
| "getWindowStart now W30d = now - 30 * DAY"

text \<open>The validated query parameters (\<open>QuerySchema\<close>): the limit lies in 1..50.\<close>

record ClusterQuery =
  q_category :: "Category option"
  q_platform :: "string option"
  q_window :: window
  q_cursor :: "string option"
  q_limit :: nat

text \<open>The part of the where clause that does not depend on the cursor. An empty
  \<open>platform\<close> parameter counts as absent.\<close>

definition baseWhere :: "Date \<Rightarrow> ClusterQuery \<Rightarrow> db \<Rightarrow> StoryCluster \<Rightarrow> bool" where
  "baseWhere now q d c =
     (status c = ACTIVE
      \<and> getWindowStart now (q_window q) \<le> lastSignalAt c
      \<and> (case q_category q of None \<Rightarrow> True | Some cat \<Rightarrow> cat \<in> set (cluster_categories c))
      \<and> (case q_platform q of
            None \<Rightarrow> True
          | Some slug \<Rightarrow> slug = [] \<or> (cluster_id c, slug) \<in> set (clusterPlatforms d)))"

text \<open>\<open>where.AND\<close>: set only for a non-empty cursor parameter that \<open>decodeCursor\<close>
  does not turn into null.\<close>

definition cursorClause :: "(jsvalue \<Rightarrow> Date option) \<Rightarrow> ClusterQuery \<Rightarrow> ClusterWhere list option" where
  "cursorClause newDate q =
     (case q_cursor q of
        None \<Rightarrow> None
      | Some cursor \<Rightarrow>
          if cursor = [] then None
          else map_option (buildCursorWhere newDate) (decodeCursor cursor))"

text \<open>\<open>orderBy importanceScore desc, lastSignalAt desc, id desc\<close>.\<close>

definition sortKey :: "StoryCluster \<Rightarrow> int \<times> int \<times> string" where
  "sortKey c = (importanceScore c, lastSignalAt c, cluster_id c)"

definition orderBy :: "StoryCluster list \<Rightarrow> StoryCluster list" where
  "orderBy rows = rev (sort_key sortKey rows)"

record ClustersResponse =
  res_clusters :: "StoryCluster list"
  nextCursor :: "string option"
  hasMore :: bool

datatype http_error = InternalServerError

text \<open>The tail of the handler: from the \<open>limit + 1\<close> rows that \<open>findMany\<close> returned
  to the page, \<open>hasMore\<close> and \<open>nextCursor\<close>.\<close>

definition paginate :: "(Date \<Rightarrow> string) \<Rightarrow> nat \<Rightarrow> StoryCluster list \<Rightarrow> ClustersResponse" where
  "paginate toISOString limit found =
     (let more = (limit < length found);
          returnedClusters = (if more then take limit found else found)
      in \<lparr>res_clusters = returnedClusters,
           nextCursor = (if more \<and> returnedClusters \<noteq> []
                         then Some (encodeCursor toISOString (last returnedClusters))
                         else None),
           hasMore = more\<rparr>)"

text \<open>
  \<open>GET\<close>, for validated parameters. The response lists the cluster rows (their
  presentation, with the ten newest signals and the platform links, is left out). An
  exception of \<open>findMany\<close> is caught by the handler and answered with status 500.
\<close>

definition GET ::
  "(Date \<Rightarrow> string) \<Rightarrow> (jsvalue \<Rightarrow> Date option) \<Rightarrow> Date \<Rightarrow> ClusterQuery \<Rightarrow> db
     \<Rightarrow> http_error + ClustersResponse" where
  "GET toISOString newDate now q d =
     (let andClause = cursorClause newDate q
      in if \<not> opt_all where_valid andClause then Inl InternalServerError
         else Inr (paginate toISOString (q_limit q)
                     (take (q_limit q + 1)
                        (orderBy (filter (\<lambda>c. baseWhere now q d c
                                             \<and> opt_all (\<lambda>ws. where_holds ws c) andClause)
                                    (clusters d))))))"

text \<open>A client's paging walk: request a page, follow \<open>nextCursor\<close> while there is
  one, and collect the rows. The fuel bounds the number of requests.\<close>

datatype walk_error = OutOfFuel | Http http_error

fun walk ::
  "(Date \<Rightarrow> string) \<Rightarrow> (jsvalue \<Rightarrow> Date option) \<Rightarrow> Date \<Rightarrow> ClusterQuery \<Rightarrow> db
     \<Rightarrow> nat \<Rightarrow> string option \<Rightarrow> walk_error + StoryCluster list" where
  "walk toISOString newDate now q d 0 cursor = Inl OutOfFuel"
| "walk toISOString newDate now q d (Suc fuel) cursor =
     (case GET toISOString newDate now (q\<lparr>q_cursor := cursor\<rparr>) d of
        Inl e \<Rightarrow> Inl (Http e)
      | Inr res \<Rightarrow>
          (case nextCursor res of
             None \<Rightarrow> Inr (res_clusters res)
           | Some c \<Rightarrow>
               (case walk toISOString newDate now q d fuel (Some c) of
                  Inl e \<Rightarrow> Inl e
                | Inr rest \<Rightarrow> Inr (res_clusters res @ rest))))"

text \<open>The rows that match the filters, in feed order.\<close>

definition matching :: "Date \<Rightarrow> ClusterQuery \<Rightarrow> db \<Rightarrow> StoryCluster list" where
  "matching now q d = orderBy (filter (baseWhere now q d) (clusters d))"

subsection \<open>Notions used in the statements about paging\<close>

text \<open>The cursor a row encodes to, as \<open>decodeCursor\<close> reads it back.\<close>

definition keysetCursor :: "(Date \<Rightarrow> string) \<Rightarrow> StoryCluster \<Rightarrow> ClusterCursor" where
  "keysetCursor toISOString r =
     \<lparr>cursor_importanceScore = Some (JNum (of_int (importanceScore r))),
      cursor_lastSignalAt = Some (JStr (toISOString (lastSignalAt r))),
      cursor_id = Some (JStr (cluster_id r))\<rparr>"

text \<open>The response built from the rows that remain to be served.\<close>

definition page :: "(Date \<Rightarrow> string) \<Rightarrow> nat \<Rightarrow> StoryCluster list \<Rightarrow> ClustersResponse" where
  "page toISOString L rows =
     \<lparr>res_clusters = take L rows,
      nextCursor = (if L < length rows then Some (encodeCursor toISOString (rows ! (L - 1))) else None),
      hasMore = (L < length rows)\<rparr>"

text \<open>The cursor parameter of the request that follows the first \<open>k\<close> rows.\<close>

definition cursor_at :: "(Date \<Rightarrow> string) \<Rightarrow> StoryCluster list \<Rightarrow> nat \<Rightarrow> string option" where
  "cursor_at toISOString rows k =
     (if k = 0 then None else Some (encodeCursor toISOString (rows ! (k - 1))))"

text \<open>The platform's guarantee that a \<open>Date\<close> survives \<open>toISOString\<close> and
  \<open>new Date\<close>, on the timestamps of the stored rows.\<close>

definition dateContract :: "(Date \<Rightarrow> string) \<Rightarrow> (jsvalue \<Rightarrow> Date option) \<Rightarrow> db \<Rightarrow> bool" where
  "dateContract toISOString newDate d =
     list_all (\<lambda>c. newDate (Some (JStr (toISOString (lastSignalAt c)))) = Some (lastSignalAt c))
       (clusters d)"

section \<open>A model of the platform's \<open>Date\<close> for the examples\<close>

text \<open>
  The handler is stated for any \<open>toISOString\<close> and \<open>new Date\<close>. The examples use
  these two: the UTC calendar arithmetic of \<open>Date.prototype.toISOString\<close>, and a
  \<open>new Date(value)\<close> that knows \<open>undefined\<close>, \<open>null\<close>, booleans, integers and the
  24-character text \<open>YYYY-MM-DDTHH:mm:ss.sssZ\<close> (every other value counts as an
  invalid date here).
\<close>

definition pad :: "nat \<Rightarrow> nat \<Rightarrow> string" where
  "pad width n = replicate (width - length (show_nat n)) CHR ''0'' @ show_nat n"

text \<open>Year, month and day of the day number \<open>z\<close> (days since 1970-01-01).\<close>

definition civil_from_days :: "int \<Rightarrow> int \<times> int \<times> int" where
  "civil_from_days z =
     (let z0 = z + 719468;
          era = z0 div 146097;
          doe = z0 - era * 146097;
          yoe = (doe - doe div 1460 + doe div 36524 - doe div 146096) div 365;
          doy = doe - (365 * yoe + yoe div 4 - yoe div 100);
          mp = (5 * doy + 2) div 153;
          dd = doy - (153 * mp + 2) div 5 + 1;
          mm = (if mp < 10 then mp + 3 else mp - 9)
      in (yoe + era * 400 + (if mm \<le> 2 then 1 else 0), mm, dd))"

definition days_from_civil :: "int \<Rightarrow> int \<Rightarrow> int \<Rightarrow> int" where
  "days_from_civil y mm dd =
     (let y0 = (if mm \<le> 2 then y - 1 else y);
          era = y0 div 400;
          yoe = y0 - era * 400;
          doy = (153 * (if mm > 2 then mm - 3 else mm + 9) + 2) div 5 + dd - 1;
          doe = yoe * 365 + yoe div 4 - yoe div 100 + doy
      in era * 146097 + doe - 719468)"

definition msPerDay :: int where "msPerDay = 86400000"

definition toISOString_utc :: "Date \<Rightarrow> string" where
  "toISOString_utc t =
     (let (y, mm, dd) = civil_from_days (t div msPerDay);
          ms = t mod msPerDay
      in (if 0 \<le> y \<and> y \<le> 9999 then pad 4 (nat y)
          else (if y < 0 then ''-'' else ''+'') @ pad 6 (nat \<bar>y\<bar>))
         @ ''-'' @ pad 2 (nat mm) @ ''-'' @ pad 2 (nat dd)
         @ ''T'' @ pad 2 (nat (ms div 3600000)) @ '':'' @ pad 2 (nat ((ms div 60000) mod 60))
         @ '':'' @ pad 2 (nat ((ms div 1000) mod 60)) @ ''.'' @ pad 3 (nat (ms mod 1000))
         @ ''Z'')"

definition daysInMonth :: "int \<Rightarrow> int \<Rightarrow> int" where
  "daysInMonth y mm =
     (if mm = 2 then (if y mod 4 = 0 \<and> (y mod 100 \<noteq> 0 \<or> y mod 400 = 0) then 29 else 28)
      else if mm \<in> {4, 6, 9, 11} then 30 else 31)"

definition Date_parse_iso :: "string \<Rightarrow> Date option" where
  "Date_parse_iso s =
     (if length s = 24
         \<and> map (\<lambda>i. s ! i) [4, 7, 10, 13, 16, 19, 23] = ''--T::.Z''
         \<and> list_all isDigit (map (\<lambda>i. s ! i)
               [0, 1, 2, 3, 5, 6, 8, 9, 11, 12, 14, 15, 17, 18, 20, 21, 22])
      then
        (let y = int (digits_to_nat (take 4 s));
             mm = int (digits_to_nat (take 2 (drop 5 s)));
             dd = int (digits_to_nat (take 2 (drop 8 s)));
             h = int (digits_to_nat (take 2 (drop 11 s)));
             mi = int (digits_to_nat (take 2 (drop 14 s)));
             sec = int (digits_to_nat (take 2 (drop 17 s)));
             ms = int (digits_to_nat (take 3 (drop 20 s)))
         in if 1 \<le> mm \<and> mm \<le> 12 \<and> 1 \<le> dd \<and> dd \<le> daysInMonth y mm
               \<and> h \<le> 23 \<and> mi \<le> 59 \<and> sec \<le> 59
            then Some (days_from_civil y mm dd * msPerDay
                       + h * 3600000 + mi * 60000 + sec * 1000 + ms)
            else None)
      else None)"

definition newDate_iso :: "jsvalue \<Rightarrow> Date option" where
  "newDate_iso v =
     (case v of
        None \<Rightarrow> None
      | Some JNull \<Rightarrow> Some 0
      | Some (JBool b) \<Rightarrow> Some (if b then 1 else 0)
      | Some (JNum q) \<Rightarrow>
          if is_integer q \<and> \<bar>q\<bar> \<le> 8640000000000000 then Some \<lfloor>q\<rfloor> else None
      | Some (JStr s) \<Rightarrow> Date_parse_iso s
      | Some _ \<Rightarrow> None)"

subsection \<open>A feed of three clusters\<close>

definition feedCluster :: "string \<Rightarrow> int \<Rightarrow> Date \<Rightarrow> StoryCluster" where
  "feedCluster ident points t =
     \<lparr>cluster_id = ident, fingerprint = ''fp-'' @ ident, headline = ''Headline'',
      contextSummary = [], searchText = ''Headline'',
      cluster_categories = [PRODUCT_UPDATE], importanceScore = points,
      scoreBreakdown = None, manualBoost = 0,
      firstSeenAt = t, lastSeenAt = t, lastSignalAt = t, status = ACTIVE\<rparr>"

definition feedNow :: Date where
  "feedNow = 1767312000000"

definition feedDb :: db where
  "feedDb =
     \<lparr>clusters = [feedCluster ''ca'' 9000 1767225600000,
                  feedCluster ''cb'' 12429 1767225600000,
                  feedCluster ''cc'' 12429 1767225600123],
      signals = [], clusterPlatforms = [], platformTable = []\<rparr>"

definition feedQuery :: ClusterQuery where
  "feedQuery = \<lparr>q_category = None, q_platform = None, q_window = W7d, q_cursor = None,
                 q_limit = 1\<rparr>"

section \<open>Content hash (lib/hash.ts, lib/pipeline/ingest.ts)\<close>

subsection \<open>SHA-256 (FIPS 180-4)\<close>

text \<open>
  \<open>createHash('sha256').update(content).digest('hex')\<close>. A 32-bit word is an integer
  from 0 to \<open>2^32 - 1\<close>; sums are reduced modulo \<open>2^32\<close>, a rotation moves the low bits
  to the top, and the complement of \<open>x\<close> is \<open>2^32 - 1 - x\<close>. The content is hashed as
  its UTF-8 bytes, which is what a string of this model is.
\<close>

definition K256 :: "int list" where
  "K256 =
     [0x428A2F98, 0x71374491, 0xB5C0FBCF, 0xE9B5DBA5, 0x3956C25B, 0x59F111F1,
      0x923F82A4, 0xAB1C5ED5, 0xD807AA98, 0x12835B01, 0x243185BE, 0x550C7DC3,
      0x72BE5D74, 0x80DEB1FE, 0x9BDC06A7, 0xC19BF174, 0xE49B69C1, 0xEFBE4786,
      0x0FC19DC6, 0x240CA1CC, 0x2DE92C6F, 0x4A7484AA, 0x5CB0A9DC, 0x76F988DA,
      0x983E5152, 0xA831C66D, 0xB00327C8, 0xBF597FC7, 0xC6E00BF3, 0xD5A79147,
      0x06CA6351, 0x14292967, 0x27B70A85, 0x2E1B2138, 0x4D2C6DFC, 0x53380D13,
      0x650A7354, 0x766A0ABB, 0x81C2C92E, 0x92722C85, 0xA2BFE8A1, 0xA81A664B,
      0xC24B8B70, 0xC76C51A3, 0xD192E819, 0xD6990624, 0xF40E3585, 0x106AA070,
      0x19A4C116, 0x1E376C08, 0x2748774C, 0x34B0BCB5, 0x391C0CB3, 0x4ED8AA4A,
      0x5B9CCA4F, 0x682E6FF3, 0x748F82EE, 0x78A5636F, 0x84C87814, 0x8CC70208,
      0x90BEFFFA, 0xA4506CEB, 0xBEF9A3F7, 0xC67178F2]"

definition H0 :: "int list" where
  "H0 =
     [0x6A09E667, 0xBB67AE85, 0x3C6EF372, 0xA54FF53A,
      0x510E527F, 0x9B05688C, 0x1F83D9AB, 0x5BE0CD19]"

definition rotr :: "nat \<Rightarrow> int \<Rightarrow> int" where
  "rotr n x = x div 2 ^ n + (x mod 2 ^ n) * 2 ^ (32 - n)"

definition Ch :: "int \<Rightarrow> int \<Rightarrow> int \<Rightarrow> int" where
  "Ch x y z = (x AND y) XOR ((4294967295 - x) AND z)"

definition Maj :: "int \<Rightarrow> int \<Rightarrow> int \<Rightarrow> int" where
  "Maj x y z = (x AND y) XOR (x AND z) XOR (y AND z)"

definition Sigma0 :: "int \<Rightarrow> int" where
  "Sigma0 x = rotr 2 x XOR rotr 13 x XOR rotr 22 x"

definition Sigma1 :: "int \<Rightarrow> int" where
  "Sigma1 x = rotr 6 x XOR rotr 11 x XOR rotr 25 x"

definition sigma0 :: "int \<Rightarrow> int" where
  "sigma0 x = rotr 7 x XOR rotr 18 x XOR x div 8"

definition sigma1 :: "int \<Rightarrow> int" where
  "sigma1 x = rotr 17 x XOR rotr 19 x XOR x div 1024"

definition sha_pad :: "int list \<Rightarrow> int list" where
  "sha_pad bytes =
     (let l = length bytes;
          k = (119 - l mod 64) mod 64
      in bytes @ [128] @ replicate k 0
         @ map (\<lambda>i. (8 * int l) div 256 ^ (7 - i) mod 256) [0, 1, 2, 3, 4, 5, 6, 7])"

fun be_words :: "int list \<Rightarrow> int list" where
  "be_words (a # b # c # d # bs) =
     (((a * 256 + b) * 256 + c) * 256 + d) # be_words bs"
| "be_words _ = []"

text \<open>The message schedule, latest word first: after \<open>n\<close> more steps of
  \<open>W(t) = \<sigma>1(W(t-2)) + W(t-7) + \<sigma>0(W(t-15)) + W(t-16)\<close>.\<close>

fun schedule :: "nat \<Rightarrow> int list \<Rightarrow> int list" where
  "schedule 0 ws = ws"
| "schedule (Suc n) ws =
     schedule n (((sigma1 (ws ! 1) + ws ! 6 + sigma0 (ws ! 14) + ws ! 15) mod 4294967296) # ws)"

fun round256 :: "int list \<Rightarrow> int \<times> int \<Rightarrow> int list" where
  "round256 [a, b, c, d, e, f, g, h] (k, w) =
     (let t1 = h + Sigma1 e + Ch e f g + k + w;
          t2 = Sigma0 a + Maj a b c
      in [(t1 + t2) mod 4294967296, a, b, c, (d + t1) mod 4294967296, e, f, g])"
| "round256 s _ = s"

definition compress :: "int list \<Rightarrow> int list \<Rightarrow> int list" where
  "compress hs block32 =
     (let ws = rev (schedule 48 (rev block32))
      in map2 (\<lambda>x y. (x + y) mod 4294967296) hs (foldl round256 hs (zip K256 ws)))"

fun blocks :: "int list \<Rightarrow> int list \<Rightarrow> int list" where
  "blocks hs (w0 # w1 # w2 # w3 # w4 # w5 # w6 # w7 # w8 # w9 # w10 # w11 # w12 # w13 # w14 # w15 # ws) =
     blocks (compress hs [w0, w1, w2, w3, w4, w5, w6, w7, w8, w9, w10, w11, w12, w13, w14, w15]) ws"
| "blocks hs _ = hs"

definition sha256 :: "int list \<Rightarrow> int list" where
  "sha256 bytes = blocks H0 (be_words (sha_pad bytes))"

definition hex32 :: "int \<Rightarrow> string" where
  "hex32 w = map (\<lambda>i. hexdigit (nat (w div 16 ^ (7 - i) mod 16))) [0, 1, 2, 3, 4, 5, 6, 7]"

definition hashContent :: "string \<Rightarrow> string" where
  "hashContent content = concat (map hex32 (sha256 (map (\<lambda>c. int (of_char c)) content)))"

subsection \<open>The platform's functions\<close>

text \<open>
  What \<open>normalizeUrl\<close> reads of a parsed \<open>URL\<close>, and the functions of the platform the
  hash is built with: \<open>new URL(s)\<close> (\<open>None\<close> when it throws),
  \<open>Date.prototype.toISOString\<close>, \<open>String.prototype.toLowerCase\<close> and
  \<open>String.prototype.trim\<close>. They are parameters of the model.
\<close>

record URL =
  protocol :: string
  host :: string
  pathname :: string

record Platform =
  URL_parse :: "string \<Rightarrow> URL option"
  Date_toISOString :: "Date \<Rightarrow> string"
  String_toLowerCase :: "string \<Rightarrow> string"
  String_trim :: "string \<Rightarrow> string"

subsection \<open>The hash of an item\<close>

text \<open>\<open>pathname.replace(/\/$/, '')\<close>: one slash at the end is removed.\<close>

definition stripTrailingSlash :: "string \<Rightarrow> string" where
  "stripTrailingSlash p = (if p \<noteq> [] \<and> last p = CHR ''/'' then butlast p else p)"

definition normalizeUrl :: "Platform \<Rightarrow> string \<Rightarrow> string" where
  "normalizeUrl P url =
     (case URL_parse P url of
        Some parsed \<Rightarrow>
          String_toLowerCase P
            (protocol parsed @ ''//'' @ host parsed @ stripTrailingSlash (pathname parsed))
      | None \<Rightarrow> String_trim P (String_toLowerCase P url))"

definition generateContentHash ::
  "Platform \<Rightarrow> string \<Rightarrow> string option \<Rightarrow> Date option \<Rightarrow> string" where
  "generateContentHash P url title' publishedAt' =
     (let normalizedUrl = normalizeUrl P url;
          normalizedTitle = String_trim P (String_toLowerCase P (str_or title' []));
          dateBucket = (case publishedAt' of
                          Some d \<Rightarrow> take 10 (Date_toISOString P d)
                        | None \<Rightarrow> ''unknown'')
      in hashContent (normalizedUrl @ ''|'' @ normalizedTitle @ ''|'' @ dateBucket))"

text \<open>What \<open>storeRawSignal\<close> reads of a fetched item for its hash.\<close>

record RawFetchedItem =
  item_externalId :: "string option"
  item_sourceUrl :: string
  item_title :: "string option"
  item_publishedAt :: "Date option"

text \<open>\<open>s || null\<close> on an optional string.\<close>

definition orNull :: "string option \<Rightarrow> string option" where
  "orNull s = (case s of None \<Rightarrow> None | Some t \<Rightarrow> if t = [] then None else Some t)"

text \<open>The \<open>contentHash\<close> column written by \<open>storeRawSignal\<close>. An empty external id is
  falsy, like an absent one; a \<open>Date\<close> is truthy.\<close>

definition storeRawSignal_contentHash :: "Platform \<Rightarrow> RawFetchedItem \<Rightarrow> string" where
  "storeRawSignal_contentHash P item =
     (case orNull (item_externalId item) of
        Some externalId \<Rightarrow> generateContentHash P (item_sourceUrl item) (Some externalId) None
      | None \<Rightarrow>
          generateContentHash P (item_sourceUrl item) (orNull (item_title item))
            (item_publishedAt item))"

subsection \<open>The hash as the specification words it\<close>

definition spec_contentHash :: "Platform \<Rightarrow> RawFetchedItem \<Rightarrow> string" where
  "spec_contentHash P item =
     (case orNull (item_externalId item) of
        Some externalId \<Rightarrow>
          hashContent (normalizeUrl P (item_sourceUrl item) @ ''|'' @ externalId @ ''|'' @ [])
      | None \<Rightarrow>
          hashContent
            (normalizeUrl P (item_sourceUrl item) @ ''|''
             @ String_toLowerCase P (str_or (item_title item) []) @ ''|''
             @ (case item_publishedAt item of
                  Some d \<Rightarrow> take 10 (Date_toISOString P d)
                | None \<Rightarrow> ''unknown'')))"

subsection \<open>A platform for the examples\<close>

text \<open>
  \<open>new URL(s)\<close> for an \<open>http\<close> or \<open>https\<close> URL of the form \<open>scheme://host/path?query#fragment\<close>
  without credentials, port, dot segments or characters that the parser escapes; any
  other text counts as unparseable here.
\<close>

definition URL_parse_http :: "string \<Rightarrow> URL option" where
  "URL_parse_http s =
     (let scheme = toLowerCase (takeWhile (\<lambda>c. c \<noteq> CHR '':'') s);
          rest = dropWhile (\<lambda>c. c \<noteq> CHR '':'') s;
          authority = takeWhile (\<lambda>c. c \<notin> set ''/?#'') (drop 3 rest);
          path = takeWhile (\<lambda>c. c \<notin> set ''?#'')
                   (dropWhile (\<lambda>c. c \<notin> set ''/?#'') (drop 3 rest))
      in if scheme \<in> {''http'', ''https''} \<and> take 3 rest = ''://'' \<and> authority \<noteq> []
         then Some \<lparr>protocol = scheme @ '':'', host = toLowerCase authority,
                     pathname = (if path = [] then ''/'' else path)\<rparr>
         else None)"

definition examplePlatform :: Platform where
  "examplePlatform =
     \<lparr>URL_parse = URL_parse_http, Date_toISOString = toISOString_utc,
      String_toLowerCase = toLowerCase, String_trim = trim\<rparr>"

text \<open>An item with the id \<open>post-42\<close> from its feed, and one without id.\<close>

definition guidItem :: RawFetchedItem where
  "guidItem =
     \<lparr>item_externalId = Some ''post-42'', item_sourceUrl = ''https://example.com/feed/post-42'',
      item_title = Some ''Replika ships voice calls'', item_publishedAt = Some 1767312000000\<rparr>"

definition plainItem :: RawFetchedItem where
  "plainItem =
     \<lparr>item_externalId = None, item_sourceUrl = ''https://Example.com/News/'',
      item_title = Some '' Voice Calls '', item_publishedAt = Some 1767312000000\<rparr>"

chapter \<open>Properties\<close>

section \<open>Truncation\<close>

lemma LIMITS_ge_3: "3 \<le> LIMITS field"
  by (cases field) simp_all

lemma truncateRequired_within_limit:
  "length (truncateRequired text field) \<le> LIMITS field"
  using LIMITS_ge_3 [of field]
  by (auto simp: truncateRequired_def slice0_def Let_def)

lemma truncate_within_limit:
  "truncate' (Some text) field = Some r \<Longrightarrow> length r \<le> LIMITS field"
  using LIMITS_ge_3 [of field]
  by (auto simp: truncate'_def slice0_def Let_def split: if_splits)

lemma truncate_keeps_required:
  "truncate' (Some text) field \<noteq> None"
  by (simp add: truncate'_def Let_def)

lemma lastIndexOf_from_absent:
  "c \<notin> set s \<Longrightarrow> lastIndexOf_from s c i found = found"
  by (induction s arbitrary: i found) auto

lemma truncateText_no_space:
  assumes "CHR '' '' \<notin> set text" and "maxLength < length text"
  shows "truncateText text maxLength = take maxLength text @ ''...''"
proof -
  have "CHR '' '' \<notin> set (take maxLength text)"
    using assms(1) by (auto dest: in_set_takeD)
  then have "lastIndexOf (take maxLength text) CHR '' '' = - 1"
    by (simp add: lastIndexOf_def lastIndexOf_from_absent)
  then show ?thesis
    using assms(2) by (simp add: truncateText_def slice0_def Let_def)
qed

text \<open>
  Claim C7. Every truncation path keeps the stored text within the field's declared
  limit. The field-table routines \<open>truncate'\<close> and \<open>truncateRequired\<close> do (lemmas
  above); the word-boundary routine \<open>truncateText\<close>, which bounds \<open>rawText\<close> and the
  LLM raw response at 20000, does not: it cuts at the limit and then appends the
  three-character marker. A text of 20001 letters is stored with 20003 characters.
\<close>

theorem truncateText_exceeds_limit:
  "map_option length (storeRawSignal_rawText (Some (replicate 20001 CHR ''a''))) = Some 20003
   \<and> LIMITS Field_rawText = 20000"
proof -
  have "truncateText (replicate 20001 CHR ''a'') 20000
          = take 20000 (replicate 20001 CHR ''a'') @ ''...''"
    by (rule truncateText_no_space) simp_all
  then show ?thesis
    by (simp add: storeRawSignal_rawText_def MAX_RAW_TEXT_LENGTH_def)
qed

section \<open>The cycle's time budget\<close>

text \<open>
  Claim C8, as stated: with \<open>DIRECT_MODE_TIMEOUT_MS\<close> unset the runner's budget is
  120000 ms. The schema's default is 55000, so the runner built from an empty
  environment does not hold 120000.
\<close>

theorem default_timeout_not_120000:
  "map_sum id timeoutMs (newDirectPipelineRunner Unset Unset Unset) \<noteq> Inr 120000"
  by (simp add: newDirectPipelineRunner_def DIRECT_MODE_MAX_ITEMS_def
      DIRECT_MODE_TIMEOUT_MS_def DIRECT_MODE_LLM_CONCURRENCY_def coerce_int_min_default_def)

text \<open>
  Claim C8, amended: in every environment that leaves \<open>DIRECT_MODE_TIMEOUT_MS\<close> unset,
  whatever the other two variables hold, the runner that is built has a budget of
  55000 ms, and a normalization task is skipped exactly when the elapsed time exceeds
  the budget minus 10000 ms, that is 45000 ms.
\<close>

theorem default_timeout_55000:
  assumes "newDirectPipelineRunner envMaxItems Unset envConcurrency = Inr runner"
  shows "timeoutMs runner = 55000
         \<and> normalizeTimeCheck runner startTime now = (now - startTime > 45000)"
proof -
  have "timeoutMs runner = 55000"
    using assms
    by (auto simp: newDirectPipelineRunner_def DIRECT_MODE_TIMEOUT_MS_def
        coerce_int_min_default_def split: sum.splits)
  then show ?thesis
    by (simp add: normalizeTimeCheck_def)
qed

theorem default_timeout_55000_witness:
  "newDirectPipelineRunner (Number 10) Unset (Number 2)
     = Inr \<lparr>maxItems = 10, timeoutMs = 55000, llmConcurrency = 2\<rparr>
   \<and> normalizeTimeCheck \<lparr>maxItems = 10, timeoutMs = 55000, llmConcurrency = 2\<rparr> 1000 46001
   \<and> \<not> normalizeTimeCheck \<lparr>maxItems = 10, timeoutMs = 55000, llmConcurrency = 2\<rparr> 1000 46000"
proof -
  have built: "newDirectPipelineRunner (Number 10) Unset (Number 2)
     = Inr \<lparr>maxItems = 10, timeoutMs = 55000, llmConcurrency = 2\<rparr>"
    by (simp add: newDirectPipelineRunner_def DIRECT_MODE_MAX_ITEMS_def
        DIRECT_MODE_TIMEOUT_MS_def DIRECT_MODE_LLM_CONCURRENCY_def coerce_int_min_default_def)
  from default_timeout_55000 [OF built, of 1000 46001]
    default_timeout_55000 [OF built, of 1000 46000] built
  show ?thesis
    by simp
qed

section \<open>Rejection of low-confidence signals\<close>

lemma low_confidence_output:
  assumes "MIN_TEXT_LENGTH \<le> length (buildText (in_title input) (in_rawText input))"
    and "provider (buildText (in_title input) (in_rawText input)) = Inr response"
    and "r_confidence (result response) < MIN_CONFIDENCE_THRESHOLD"
  shows "o_ingestStatus (normalizeSignal pn provider slugs og input) = REJECTED"
    and "o_ingestReason (normalizeSignal pn provider slugs og input)
           = Some (''Low relevance to AI companions (confidence: ''
                   @ toFixed2 (r_confidence (result response)) @ '')'')"
    and "o_llmRawResponse (normalizeSignal pn provider slugs og input)
           = Some (truncateText (rawResponse response) MAX_RAW_RESPONSE_LENGTH)"
    and "\<not> o_success (normalizeSignal pn provider slugs og input)"
  using assms
  by (simp_all add: normalizeSignal_def bareOutput_def Let_def split: prod.splits)

text \<open>Whatever a rejected output carries, the update writes status, reason and
  \<open>normalizedAt\<close> only: the raw response column keeps its old value.\<close>

lemma unsuccessful_update_keeps_raw_response:
  "\<not> o_success output \<Longrightarrow>
     llmRawResponse (updateSignalWithNormalization now output row) = llmRawResponse row"
  by (simp add: updateSignalWithNormalization_def Let_def)

text \<open>
  Claim C3. A signal whose response validates with confidence below 0.6 ends as
  \<open>REJECTED\<close> with a reason that reports the confidence, and with the raw response
  stored. On the example (confidence 0.45) the status and the reason are as claimed and
  \<open>normalizeSignal\<close> does put the raw response into its output, but
  \<open>updateSignalWithNormalization\<close> drops it: the column of the persisted row is
  still null.
\<close>

theorem rejected_signal_raw_response_not_stored:
  "(let output = normalizeSignal ''openai'' (\<lambda>text. Inr exampleResponse) [] None exampleInput;
        row = updateSignalWithNormalization 1000 output
                (pendingSignal ''sig1'' (in_title exampleInput) None 900)
    in (ingestStatus row, ingestReason row, o_llmRawResponse output, llmRawResponse row))
   = (REJECTED, Some ''Low relevance to AI companions (confidence: 0.45)'',
      Some exampleRaw, None)"
  by (simp add: normalizeSignal_def updateSignalWithNormalization_def
      exampleInput_def exampleResponse_def exampleRaw_def buildText_def str_or_def
      MIN_TEXT_LENGTH_def MIN_CONFIDENCE_THRESHOLD_def MAX_RAW_RESPONSE_LENGTH_def
      validatePlatforms_def bareOutput_def set_opt_def pendingSignal_def truncateText_def
      toFixed2_def toFixed2_nonneg_def show_nat.simps digit_char_def Let_def)

section \<open>Cluster timestamps\<close>

lemma create_sampleSignal:
  "createNewCluster (sampleSignal pub) ''fp'' ''Replika ships voice calls'' ''c1'' 1200 (sampleDb pub)
     = Inr (sampleCluster (publishedOrCreated (sampleSignal pub)) 1200 1000, createdDb pub)"
  by (simp add: createNewCluster_def sampleSignal_def sampleDb_def createdDb_def
      sampleCluster_def pendingSignal_def truncateRequired_def str_or_def
      signalPlatforms_def Let_def)

lemma attach_sampleSignal:
  "attachSignalToCluster ''sig1'' ''c1'' 1500 (createdDb pub) = Inr (attachedDb pub)"
  by (simp add: attachSignalToCluster_def createdDb_def sampleDb_def attachedDb_def
      sampleSignal_def sampleCluster_def pendingSignal_def)

text \<open>
  Claim C5, as stated: \<open>lastSignalAt \<ge> firstSeenAt\<close> in every reachable state. A signal
  created at 1000 and dated 5000 by its feed gives a cluster first seen at 5000 whose
  last signal is at 1000 after \<open>createNewCluster\<close>, and at 1500 after the attachment
  that follows it.
\<close>

theorem future_dated_signal_breaks_order:
  "reachable (createdDb (Some 5000)) \<and> \<not> lastSignalAfterFirstSeen (createdDb (Some 5000))
   \<and> reachable (attachedDb (Some 5000)) \<and> \<not> lastSignalAfterFirstSeen (attachedDb (Some 5000))"
proof -
  have r0: "reachable (sampleDb (Some 5000))"
    by (rule reachable_init) (simp add: sampleDb_def)
  have r1: "reachable (createdDb (Some 5000))"
    by (rule reachable_create [OF r0 create_sampleSignal])
  have r2: "reachable (attachedDb (Some 5000))"
    by (rule reachable_attach [OF r1 attach_sampleSignal])
  have "\<not> lastSignalAfterFirstSeen (createdDb (Some 5000))"
    by (simp add: lastSignalAfterFirstSeen_def createdDb_def sampleCluster_def
        publishedOrCreated_def sampleSignal_def pendingSignal_def)
  moreover have "\<not> lastSignalAfterFirstSeen (attachedDb (Some 5000))"
    by (simp add: lastSignalAfterFirstSeen_def attachedDb_def sampleCluster_def
        publishedOrCreated_def sampleSignal_def pendingSignal_def)
  ultimately show ?thesis using r1 r2 by simp
qed

lemma create_keeps_order:
  assumes "lastSignalAfterFirstSeen d"
    and "publishedOrCreated signal \<le> createdAt signal"
    and "createNewCluster signal fp stext newId dbNow d = Inr (c, d')"
  shows "lastSignalAfterFirstSeen d'"
  using assms
  by (auto simp: createNewCluster_def lastSignalAfterFirstSeen_def Let_def split: if_splits)

lemma attach_keeps_order:
  assumes "lastSignalAfterFirstSeen d"
    and "list_all (\<lambda>c. cluster_id c \<noteq> cid \<or> lastSignalAt c \<le> now) (clusters d)"
    and "attachSignalToCluster signalId cid now d = Inr d'"
  shows "lastSignalAfterFirstSeen d'"
proof -
  have d': "clusters d' =
      map (\<lambda>c. if cluster_id c = cid then c\<lparr>lastSignalAt := now, lastSeenAt := now\<rparr> else c)
        (clusters d)"
    using assms(3) by (auto simp: attachSignalToCluster_def split: if_splits)
  have "firstSeenAt c \<le> now" if "c \<in> set (clusters d)" "cluster_id c = cid" for c
  proof -
    have "firstSeenAt c \<le> lastSignalAt c"
      using assms(1) that(1) by (simp add: lastSignalAfterFirstSeen_def list_all_iff)
    moreover have "lastSignalAt c \<le> now"
      using assms(2) that by (auto simp: list_all_iff)
    ultimately show ?thesis by simp
  qed
  then show ?thesis
    using assms(1) by (auto simp: d' lastSignalAfterFirstSeen_def list_all_iff)
qed

text \<open>
  Claim C5, amended: \<open>lastSignalAt \<ge> firstSeenAt\<close> holds for every cluster in every
  state reached by \<open>createNewCluster\<close> from signals whose \<open>publishedAt\<close> is absent or
  not later than their \<open>createdAt\<close>, and by \<open>attachSignalToCluster\<close> at times not
  earlier than the cluster's current \<open>lastSignalAt\<close>.
\<close>

theorem in_time_clusters_ordered:
  "reachable_in_time d \<Longrightarrow> lastSignalAfterFirstSeen d"
proof (induction rule: reachable_in_time.induct)
  case (in_time_init d)
  then show ?case by (simp add: lastSignalAfterFirstSeen_def)
next
  case (in_time_create d signal fp stext newId dbNow c d')
  then show ?case by (blast intro: create_keeps_order)
next
  case (in_time_attach d cid now signalId d')
  then show ?case by (blast intro: attach_keeps_order)
qed

theorem in_time_clusters_ordered_witness:
  "reachable_in_time (attachedDb (Some 800)) \<and> lastSignalAfterFirstSeen (attachedDb (Some 800))"
proof -
  have r0: "reachable_in_time (sampleDb (Some 800))"
    by (rule in_time_init) (simp add: sampleDb_def)
  have "publishedOrCreated (sampleSignal (Some 800)) \<le> createdAt (sampleSignal (Some 800))"
    by (simp add: publishedOrCreated_def sampleSignal_def pendingSignal_def)
  then have r1: "reachable_in_time (createdDb (Some 800))"
    by (rule in_time_create [OF r0 _ create_sampleSignal])
  have "list_all (\<lambda>c. cluster_id c \<noteq> ''c1'' \<or> lastSignalAt c \<le> 1500)
          (clusters (createdDb (Some 800)))"
    by (simp add: createdDb_def sampleCluster_def)
  then have r2: "reachable_in_time (attachedDb (Some 800))"
    by (rule in_time_attach [OF r1 _ attach_sampleSignal])
  from in_time_clusters_ordered [OF r2] r2 show ?thesis by simp
qed

section \<open>Importance score\<close>

lemma exp_partial_sum8:
  "(\<Sum>m<8. (x::real) ^ m / fact m)
     = 1 + x + x^2 / 2 + x^3 / 6 + x^4 / 24 + x^5 / 120 + x^6 / 720 + x^7 / 5040"
  by (simp add: eval_nat_numeral)


lemma ln2_lower: "6929 / 10000 < ln (2::real)"
proof -
  define x :: real where "x = 6929 / 10000"
  obtain t where t: "\<bar>t\<bar> \<le> \<bar>x\<bar>" "exp x = (\<Sum>m<8. x ^ m / fact m) + (exp t / fact 8) * x ^ 8"
    using Maclaurin_exp_le [of x 8] by blast
  have "t \<le> 1" using t(1) by (simp add: x_def)
  then have "exp t \<le> exp 1" by simp
  then have et: "exp t \<le> 3" using exp_le by linarith
  have "(exp t / fact 8) * x ^ 8 \<le> (3 / fact 8) * x ^ 8"
    using et by (intro mult_right_mono divide_right_mono) (simp_all add: x_def)
  then have "exp x \<le> (\<Sum>m<8. x ^ m / fact m) + (3 / fact 8) * x ^ 8"
    using t(2) by linarith
  also have "\<dots> < 2"
    unfolding exp_partial_sum8 by (simp add: x_def eval_nat_numeral)
  finally have "exp x < exp (ln 2)" by simp
  then show ?thesis unfolding x_def by (simp only: exp_less_cancel_iff)
qed

subsection \<open>Rounding error\<close>








subsection \<open>The components\<close>













subsection \<open>The scenario\<close>







subsection \<open>Two domains of weight 0.9 and 0.45\<close>













section \<open>Phase 2 of cluster assignment\<close>

text \<open>The signal ``Replika launches voice calls'' and the cluster ``Replika voice calling
  launched'' share two of their four terms and the platform \<open>replika\<close>.\<close>

lemma voice_signal_tokens:
  "tokenize ''Replika launches voice calls'' = [''replika'', ''launches'', ''voice'', ''calls'']"
  by code_simp

lemma voice_candidate_tokens:
  "tokenize ''Replika voice calling launched'' = [''replika'', ''voice'', ''calling'', ''launched'']"
  by code_simp

lemma rare_term_idf_pos: "0 < ln (2 :: real) + 1"
  by (simp add: add_pos_pos)

lemma rare_term_idf_nonzero: "ln (2 :: real) + 1 \<noteq> 0"
  using rare_term_idf_pos by simp

lemma voice_idf:
  "computeIDF [[''replika'', ''voice'', ''calling'', ''launched''],
               [''replika'', ''launches'', ''voice'', ''calls'']] =
     [(''replika'', 1), (''voice'', 1), (''calling'', ln 2 + 1), (''launched'', ln 2 + 1),
      (''launches'', ln 2 + 1), (''calls'', ln 2 + 1)]"
  by (simp add: computeIDF_def uniqueTerms_def increment_def get_or_def)

lemma voice_signal_vector:
  "computeTFIDF [''replika'', ''launches'', ''voice'', ''calls'']
     [(''replika'', 1), (''voice'', 1), (''calling'', ln 2 + 1), (''launched'', ln 2 + 1),
      (''launches'', ln 2 + 1), (''calls'', ln 2 + 1)] =
     [(''replika'', 1), (''launches'', ln 2 + 1), (''voice'', 1), (''calls'', ln 2 + 1)]"
  by (simp add: computeTFIDF_def computeTF_def increment_def get_or_def rare_term_idf_nonzero)

lemma voice_candidate_vector:
  "computeTFIDF [''replika'', ''voice'', ''calling'', ''launched'']
     [(''replika'', 1), (''voice'', 1), (''calling'', ln 2 + 1), (''launched'', ln 2 + 1),
      (''launches'', ln 2 + 1), (''calls'', ln 2 + 1)] =
     [(''replika'', 1), (''voice'', 1), (''calling'', ln 2 + 1), (''launched'', ln 2 + 1)]"
  by (simp add: computeTFIDF_def computeTF_def increment_def get_or_def rare_term_idf_nonzero)

lemma voice_cosine:
  "cosineSimilarity
     [(''replika'', 1), (''launches'', ln 2 + 1), (''voice'', 1), (''calls'', ln 2 + 1)]
     [(''replika'', 1), (''voice'', 1), (''calling'', ln 2 + 1), (''launched'', ln 2 + 1)] =
   2 / (2 + 2 * (ln 2 + 1) * (ln 2 + 1))"
proof -
  have pos: "0 < 2 + 2 * (ln (2 :: real) + 1) * (ln 2 + 1)"
    using rare_term_idf_pos by (simp add: add_pos_pos)
  have n1: "foldl (\<lambda>acc (term, v). acc + v * v) 0
              [(''replika'', 1), (''launches'', ln 2 + 1), (''voice'', 1), (''calls'', ln 2 + 1 :: real)]
            = 2 + 2 * (ln 2 + 1) * (ln 2 + 1)"
    by simp
  have n2: "foldl (\<lambda>acc (term, v). acc + v * v) 0
              [(''replika'', 1), (''voice'', 1), (''calling'', ln 2 + 1), (''launched'', ln 2 + 1 :: real)]
            = 2 + 2 * (ln 2 + 1) * (ln 2 + 1)"
    by simp
  have d: "foldl (\<lambda>acc (term, v). acc + v * get_or
              [(''replika'', 1), (''voice'', 1), (''calling'', ln 2 + 1), (''launched'', ln 2 + 1)] term 0) 0
              [(''replika'', 1), (''launches'', ln 2 + 1), (''voice'', 1), (''calls'', ln 2 + 1 :: real)]
            = 2"
    by (simp add: get_or_def)
  have m: "sqrt (2 + 2 * (ln (2 :: real) + 1) * (ln 2 + 1)) * sqrt (2 + 2 * (ln 2 + 1) * (ln 2 + 1))
           = 2 + 2 * (ln 2 + 1) * (ln 2 + 1)"
    using pos by simp
  show ?thesis
    unfolding cosineSimilarity_def Let_def n1 n2 d m using pos by simp
qed

lemma shared_half_cosine_bounds:
  fixes a :: real
  assumes "5 / 4 \<le> a" and "a \<le> 2"
  shows "2 / 10 \<le> 2 / (2 + 2 * a * a) \<and> 2 / (2 + 2 * a * a) < 4 / 10"
proof -
  have sq_lo: "(5 / 4) * (5 / 4) \<le> a * a"
    using assms by (intro mult_mono) simp_all
  have sq_hi: "a * a \<le> 2 * 2"
    using assms by (intro mult_mono) simp_all
  define b where "b = a * a"
  have "2 / 10 \<le> 2 / (2 + 2 * b) \<and> 2 / (2 + 2 * b) < 4 / 10"
    using sq_lo sq_hi unfolding b_def [symmetric] by (simp add: field_simps)
  then show ?thesis
    by (simp add: b_def mult.assoc)
qed

lemma voice_cosine_bounds:
  "2 / 10 \<le> 2 / (2 + 2 * (ln 2 + 1) * (ln 2 + 1 :: real))
   \<and> 2 / (2 + 2 * (ln 2 + 1) * (ln 2 + 1 :: real)) < 4 / 10"
proof (rule shared_half_cosine_bounds)
  show "5 / 4 \<le> ln (2 :: real) + 1"
    using ln2_lower by simp
  show "ln (2 :: real) + 1 \<le> 2"
    using ln_le_minus_one [of "2 :: real"] by simp
qed

lemma voice_findMostSimilar:
  assumes "2 / (2 + 2 * (ln 2 + 1) * (ln 2 + 1)) < threshold"
  shows "findMostSimilar [''replika'', ''launches'', ''voice'', ''calls'']
           [[''replika'', ''voice'', ''calling'', ''launched'']] threshold = None"
  using assms
  by (simp add: findMostSimilar_def voice_idf voice_signal_vector voice_candidate_vector
      voice_cosine)

lemma voice_bonus:
  "platformOverlapBonus (signalPlatforms voiceSignal) (clusterPlatformSlugs voiceDb ''c1'') = 2 / 10"
  by (simp add: platformOverlapBonus_def signalPlatforms_def voiceSignal_def pendingSignal_def
      clusterPlatformSlugs_def voiceDb_def uniqueTerms_def toLowerCase_def toLowerCase_char_def)

lemma voice_findSimilarCluster:
  assumes "2 / (2 + 2 * (ln 2 + 1) * (ln 2 + 1)) < threshold"
  shows "findSimilarCluster threshold [voiceCandidate] voiceSignal
           ''Replika launches voice calls'' voiceDb = None"
  using voice_findMostSimilar [OF assms]
  by (simp add: findSimilarCluster_def voiceCandidate_def voice_signal_tokens
      voice_candidate_tokens)

lemma voice_adjusted:
  "spec_adjustedScore [voiceCandidate] voiceSignal ''Replika launches voice calls'' voiceDb voiceCandidate
   = 2 / (2 + 2 * (ln 2 + 1) * (ln 2 + 1)) + 2 / 10"
proof -
  have c: "cand_searchText voiceCandidate = ''Replika voice calling launched''"
    and i: "cand_id voiceCandidate = ''c1''"
    by (simp_all add: voiceCandidate_def)
  show ?thesis
    unfolding spec_adjustedScore_def Let_def
    by (simp only: list.map c i voice_signal_tokens voice_candidate_tokens append.simps
        voice_idf voice_signal_vector voice_candidate_vector voice_cosine voice_bonus)
qed

text \<open>
  Claim C2. With the default threshold 0.4, the candidate's adjusted score (cosine plus
  platform-overlap bonus 0.2) is at least the threshold, so by the specification the signal
  is attached to it. \<open>findSimilarCluster\<close> returns null instead: \<open>findMostSimilar\<close> has
  already dropped the candidate, whose cosine alone is below the threshold, and the bonus
  is added only to a match that passed without it.
\<close>

theorem platform_bonus_never_lifts_candidate:
  "CLUSTER_SIMILARITY_THRESHOLD Unset = Inr (4 / 10)
   \<and> spec_adjustedScore [voiceCandidate] voiceSignal ''Replika launches voice calls'' voiceDb
         voiceCandidate \<ge> 4 / 10
   \<and> findSimilarCluster (4 / 10) [voiceCandidate] voiceSignal
         ''Replika launches voice calls'' voiceDb = None"
proof (intro conjI)
  show "CLUSTER_SIMILARITY_THRESHOLD Unset = Inr (4 / 10)"
    by (simp add: CLUSTER_SIMILARITY_THRESHOLD_def coerce_number_range_default_def)
  show "spec_adjustedScore [voiceCandidate] voiceSignal ''Replika launches voice calls'' voiceDb
         voiceCandidate \<ge> 4 / 10"
    unfolding voice_adjusted using voice_cosine_bounds by linarith
  show "findSimilarCluster (4 / 10) [voiceCandidate] voiceSignal
         ''Replika launches voice calls'' voiceDb = None"
    using voice_cosine_bounds by (intro voice_findSimilarCluster) simp
qed

section \<open>Cursor encoding\<close>

subsection \<open>base64url\<close>

lemma b64_table: "list_all (\<lambda>i. b64val (b64char i) = Some i \<and> b64char i \<noteq> CHR ''='') [0..<64]"
  by code_simp

lemma b64val_b64char: "i < 64 \<Longrightarrow> b64val (b64char i) = Some i"
  using b64_table by (simp add: list_all_iff)

lemma b64char_not_pad: "i < 64 \<Longrightarrow> b64char i \<noteq> CHR ''=''"
  using b64_table by (simp add: list_all_iff)

lemma decode_four:
  assumes "a < 64" "b < 64" "c < 64" "d < 64"
  shows "base64url_decode (b64char a # b64char b # b64char c # b64char d # cs)
         = [a * 4 + b div 16, (b mod 16) * 16 + c div 4, (c mod 4) * 64 + d] @ base64url_decode cs"
  using assms
  by (simp add: base64url_decode_def List.map_filter_simps b64val_b64char b64char_not_pad)

lemma sextet_bounds:
  fixes a b c :: nat
  assumes "a < 256" "b < 256" "c < 256"
  shows "a div 4 < 64" "(a mod 4) * 16 < 64" "(a mod 4) * 16 + b div 16 < 64"
    "(b mod 16) * 4 < 64" "(b mod 16) * 4 + c div 64 < 64" "c mod 64 < 64"
proof -
  have m4: "a mod 4 < 4" and m16: "b mod 16 < 16" by simp_all
  have d16: "b div 16 < 16" and d64: "c div 64 < 4" using assms by simp_all
  show "a div 4 < 64" using assms by simp
  show "(a mod 4) * 16 < 64" using m4 by linarith
  show "(a mod 4) * 16 + b div 16 < 64" using m4 d16 by linarith
  show "(b mod 16) * 4 < 64" using m16 by linarith
  show "(b mod 16) * 4 + c div 64 < 64" using m16 d64 by linarith
  show "c mod 64 < 64" by simp
qed

lemma sextet_recombine:
  fixes a b c :: nat
  assumes "a < 256" "b < 256" "c < 256"
  shows "a div 4 * 4 + ((a mod 4) * 16 + b div 16) div 16 = a"
    "(((a mod 4) * 16 + b div 16) mod 16) * 16 + ((b mod 16) * 4 + c div 64) div 4 = b"
    "(((b mod 16) * 4 + c div 64) mod 4) * 64 + c mod 64 = c"
    "a div 4 * 4 + ((a mod 4) * 16) div 16 = a"
    "(((a mod 4) * 16 + b div 16) mod 16) * 16 + ((b mod 16) * 4) div 4 = b"
  using assms by (simp_all add: mod_mult2_eq)

lemma decode_encode_bytes:
  "list_all (\<lambda>x. x < 256) bs \<Longrightarrow> base64url_decode (base64url_encode bs) = bs"
proof (induction bs rule: base64url_encode.induct)
  case 1
  then show ?case by (simp add: base64url_decode_def List.map_filter_simps)
next
  case (2 a)
  then have a: "a < 256" by simp
  show ?case
    using sextet_bounds(1,2) [OF a a a] sextet_recombine(4) [OF a a a]
    by (simp add: base64url_decode_def List.map_filter_simps b64val_b64char b64char_not_pad)
next
  case (3 a b)
  then have a: "a < 256" and b: "b < 256" by simp_all
  show ?case
    using sextet_bounds(1,3,4) [OF a b b] sextet_recombine(1,5) [OF a b b]
    by (simp add: base64url_decode_def List.map_filter_simps b64val_b64char b64char_not_pad)
next
  case (4 a b c bytes)
  then have a: "a < 256" and b: "b < 256" and c: "c < 256" by simp_all
  have "base64url_decode (base64url_encode (a # b # c # bytes))
        = [a div 4 * 4 + ((a mod 4) * 16 + b div 16) div 16,
           (((a mod 4) * 16 + b div 16) mod 16) * 16 + ((b mod 16) * 4 + c div 64) div 4,
           (((b mod 16) * 4 + c div 64) mod 4) * 64 + c mod 64] @ base64url_decode (base64url_encode bytes)"
    using decode_four [OF sextet_bounds(1,3,5,6) [OF a b c]] by simp
  also have "\<dots> = a # b # c # bytes"
    using 4 sextet_recombine(1,2,3) [OF a b c] by simp
  finally show ?case .
qed

lemma decode_encode_string:
  "string_of (base64url_decode (base64url_encode (bytes_of s))) = s"
proof -
  have "list_all (\<lambda>x. x < 256) (bytes_of s)"
    by (simp add: bytes_of_def list_all_iff)
  then show ?thesis
    by (simp add: decode_encode_bytes) (simp add: bytes_of_def string_of_def comp_def)
qed

lemma encode_nonempty: "bs \<noteq> [] \<Longrightarrow> base64url_encode bs \<noteq> []"
  by (induction bs rule: base64url_encode.induct) simp_all


subsection \<open>Numbers and strings survive \<open>JSON.stringify\<close> and the lexer\<close>

lemma digit_table: "list_all (\<lambda>d. isDigit (digit_char d) \<and> digit_val (digit_char d) = d) [0..<10]"
  by code_simp

lemma digit_char_props: "d < 10 \<Longrightarrow> isDigit (digit_char d) \<and> digit_val (digit_char d) = d"
  using digit_table by (simp add: list_all_iff)

lemma digit_char_zero: "d < 10 \<Longrightarrow> (digit_char d = CHR ''0'') = (d = 0)"
  by (simp add: digit_char_def)

lemma show_nat_digits: "list_all isDigit (show_nat n)"
proof (induction n rule: show_nat.induct)
  case (1 n)
  show ?case
  proof (cases "n < 10")
    case True
    then show ?thesis by (subst show_nat.simps) (simp add: digit_char_props)
  next
    case False
    with 1 show ?thesis by (subst show_nat.simps) (simp add: digit_char_props)
  qed
qed

lemma show_nat_nonempty: "show_nat n \<noteq> []"
  by (subst show_nat.simps) simp

lemma digits_to_nat_Nil: "digits_to_nat [] = 0"
  by (simp add: digits_to_nat_def)

lemma digits_to_nat_snoc: "digits_to_nat (ds @ [c]) = 10 * digits_to_nat ds + digit_val c"
  by (simp add: digits_to_nat_def)

lemma digits_to_nat_show_nat: "digits_to_nat (show_nat n) = n"
proof (induction n rule: show_nat.induct)
  case (1 n)
  show ?case
  proof (cases "n < 10")
    case True
    then show ?thesis
      by (subst show_nat.simps) (simp add: digits_to_nat_def digit_char_props)
  next
    case False
    with 1 show ?thesis
      by (subst show_nat.simps) (simp add: digits_to_nat_snoc digit_char_props)
  qed
qed

lemma hd_show_nat: "0 < n \<Longrightarrow> hd (show_nat n) \<noteq> CHR ''0''"
proof (induction n rule: show_nat.induct)
  case (1 n)
  show ?case
  proof (cases "n < 10")
    case True
    with 1 show ?thesis
      by (subst show_nat.simps) (simp add: digit_char_zero)
  next
    case False
    then have "0 < n div 10" by simp
    with 1 False show ?thesis
      by (subst show_nat.simps) (simp add: show_nat_nonempty)
  qed
qed

lemma show_nat_zero: "show_nat 0 = ''0''"
  by (subst show_nat.simps) (simp add: digit_char_def)

lemma takeWhile_digits:
  "list_all isDigit ds \<Longrightarrow> \<not> isDigit c \<Longrightarrow> takeWhile isDigit (ds @ c # rest) = ds"
  by (induction ds) simp_all

lemma dropWhile_digits:
  "list_all isDigit ds \<Longrightarrow> \<not> isDigit c \<Longrightarrow> dropWhile isDigit (ds @ c # rest) = c # rest"
  by (induction ds) simp_all

lemma lex_int_part_show_nat:
  assumes "\<not> isDigit c"
  shows "lex_int_part (show_nat n @ c # rest) = Some (show_nat n, c # rest)"
proof (cases "n = 0")
  case True
  then show ?thesis by (simp add: show_nat_zero lex_int_part_def)
next
  case False
  obtain x xs where sn: "show_nat n = x # xs"
    using show_nat_nonempty [of n] by (cases "show_nat n") auto
  have x0: "x \<noteq> CHR ''0''" using hd_show_nat [of n] False sn by simp
  have xd: "isDigit x" using show_nat_digits [of n] sn by simp
  have "takeWhile isDigit (show_nat n @ c # rest) = show_nat n"
    "dropWhile isDigit (show_nat n @ c # rest) = c # rest"
    using takeWhile_digits dropWhile_digits show_nat_digits assms by blast+
  then show ?thesis
    using x0 xd by (simp add: lex_int_part_def sn)
qed

lemma lex_number_show_nat:
  assumes "\<not> isDigit c" "c \<noteq> CHR ''.''" "c \<noteq> CHR ''e''" "c \<noteq> CHR ''E''"
  shows "lex_number (show_nat n @ c # rest) = Some (of_nat n, c # rest)"
proof -
  obtain x xs where sn: "show_nat n = x # xs"
    using show_nat_nonempty [of n] by (cases "show_nat n") auto
  have "isDigit x" using show_nat_digits [of n] sn by simp
  then have xm: "x \<noteq> CHR ''-''" by (auto simp: isDigit_def)
  have "(case show_nat n @ c # rest of y # ys \<Rightarrow> if y = CHR ''-'' then (True, ys) else (False, show_nat n @ c # rest)
                       | [] \<Rightarrow> (False, show_nat n @ c # rest)) = (False, show_nat n @ c # rest)"
    using xm by (simp add: sn)
  then show ?thesis
    using assms
    by (simp add: lex_number_def lex_int_part_show_nat [OF assms(1)] lex_frac_part_def
        lex_exp_part_def pow10_def digits_to_nat_show_nat digits_to_nat_Nil)
qed

lemma lex_number_show_int:
  assumes "\<not> isDigit c" "c \<noteq> CHR ''.''" "c \<noteq> CHR ''e''" "c \<noteq> CHR ''E''"
  shows "lex_number (show_int i @ c # rest) = Some (of_int i, c # rest)"
proof (cases "i < 0")
  case False
  then show ?thesis
    using lex_number_show_nat [OF assms, of "nat i" rest] by (simp add: show_int_def)
next
  case True
  have "lex_number (CHR ''-'' # show_nat (nat (- i)) @ c # rest) = Some (- of_nat (nat (- i)), c # rest)"
    using assms
    by (simp add: lex_number_def lex_int_part_show_nat [OF assms(1)] lex_frac_part_def
        lex_exp_part_def pow10_def digits_to_nat_show_nat digits_to_nat_Nil)
  with True show ?thesis by (simp add: show_int_def)
qed

lemma hex_table: "list_all (\<lambda>d. hexval (hexdigit d) = Some d) [0..<16]"
  by code_simp

lemma hexval_hexdigit: "d < 16 \<Longrightarrow> hexval (hexdigit d) = Some d"
  using hex_table by (simp add: list_all_iff)

lemma hexval_zero: "hexval CHR ''0'' = Some 0"
  by code_simp

lemma quote_char_cases:
  obtains (special) "c \<in> set [CHR 0x22, CHR 0x5C, CHR 0x08, CHR 0x09, CHR 0x0A, CHR 0x0C, CHR 0x0D]"
  | (control) "c \<notin> set [CHR 0x22, CHR 0x5C, CHR 0x08, CHR 0x09, CHR 0x0A, CHR 0x0C, CHR 0x0D]"
      "(of_char c :: nat) < 32"
  | (plain) "c \<notin> set [CHR 0x22, CHR 0x5C, CHR 0x08, CHR 0x09, CHR 0x0A, CHR 0x0C, CHR 0x0D]"
      "\<not> (of_char c :: nat) < 32"
  by blast

lemma lex_char_quote_char: "lex_char (quote_char c @ tail) = Some ([c], tail)"
proof (cases c rule: quote_char_cases)
  case special
  then consider "c = CHR 0x22" | "c = CHR 0x5C" | "c = CHR 0x08" | "c = CHR 0x09"
    | "c = CHR 0x0A" | "c = CHR 0x0C" | "c = CHR 0x0D"
    by auto
  then show ?thesis
    by cases (simp_all add: quote_char_def lex_char_def simple_escape_def)
next
  case control
  let ?n = "of_char c :: nat"
  have q: "quote_char c = [CHR 0x5C, CHR ''u'', CHR ''0'', CHR ''0'', hexdigit (?n div 16), hexdigit (?n mod 16)]"
    using control by (simp add: quote_char_def)
  have "?n div 16 < 16" using control(2) by simp
  then have h: "hex4 CHR ''0'' CHR ''0'' (hexdigit (?n div 16)) (hexdigit (?n mod 16)) = Some ?n"
    by (simp add: hex4_def hexval_zero hexval_hexdigit)
  have u: "utf8_of_unit ?n = [c]"
    using control(2) by (simp add: utf8_of_unit_def)
  show ?thesis
    by (simp add: q lex_char_def h u)
next
  case plain
  then show ?thesis
    by (simp add: quote_char_def lex_char_def)
qed

lemma quote_char_head: "\<exists>x xs. quote_char c = x # xs \<and> x \<noteq> CHR 0x22"
proof (cases c rule: quote_char_cases)
  case special
  then consider "c = CHR 0x22" | "c = CHR 0x5C" | "c = CHR 0x08" | "c = CHR 0x09"
    | "c = CHR 0x0A" | "c = CHR 0x0C" | "c = CHR 0x0D"
    by auto
  then show ?thesis
    by cases (simp_all add: quote_char_def)
next
  case control
  then show ?thesis by (simp add: quote_char_def)
next
  case plain
  then show ?thesis by (simp add: quote_char_def)
qed

lemma lex_string_quoted:
  "lex_string (concat (map quote_char s) @ CHR 0x22 # rest) = Some (s, rest)"
proof (induction s)
  case Nil
  show ?case by (subst lex_string.simps) simp
next
  case (Cons c s)
  obtain x xs where q: "quote_char c = x # xs" and x: "x \<noteq> CHR 0x22"
    using quote_char_head by blast
  let ?tail = "concat (map quote_char s) @ CHR 0x22 # rest"
  have lc: "lex_char (x # xs @ ?tail) = Some ([c], ?tail)"
    using lex_char_quote_char [of c ?tail] by (simp add: q)
  show ?case
    by (subst lex_string.simps) (simp add: q x lc Cons.IH)
qed


subsection \<open>The cursor survives encoding and decoding\<close>

lemma JSON_tokenize_Nil: "JSON_tokenize [] = Some []"
  by (subst JSON_tokenize.simps) simp

lemma JSON_tokenize_punct:
  "JSON_tokenize (CHR ''{'' # rest) = map_option (Cons TLBrace) (JSON_tokenize rest)"
  "JSON_tokenize (CHR ''}'' # rest) = map_option (Cons TRBrace) (JSON_tokenize rest)"
  "JSON_tokenize (CHR '':'' # rest) = map_option (Cons TColon) (JSON_tokenize rest)"
  "JSON_tokenize (CHR '','' # rest) = map_option (Cons TComma) (JSON_tokenize rest)"
  by (subst JSON_tokenize.simps, simp add: isWhitespace_def next_token_def punctuator_def)+

lemma JSON_tokenize_string:
  "JSON_tokenize (JSON_quote s @ rest) = map_option (Cons (TStr s)) (JSON_tokenize rest)"
  by (subst JSON_tokenize.simps)
     (simp add: JSON_quote_def isWhitespace_def next_token_def punctuator_def lex_string_quoted)

lemma digit_not_special:
  assumes "isDigit x \<or> x = CHR ''-''"
  shows "\<not> isWhitespace x" "punctuator x = None" "x \<noteq> CHR 0x22"
  using assms by (auto simp: isDigit_def isWhitespace_def punctuator_def)

lemma show_int_head: "\<exists>x xs. show_int i = x # xs \<and> (isDigit x \<or> x = CHR ''-'')"
proof (cases "i < 0")
  case True
  then show ?thesis by (simp add: show_int_def)
next
  case False
  obtain x xs where sn: "show_nat (nat i) = x # xs"
    using show_nat_nonempty [of "nat i"] by (cases "show_nat (nat i)") auto
  then have "isDigit x" using show_nat_digits [of "nat i"] by simp
  with sn False show ?thesis by (simp add: show_int_def)
qed

lemma JSON_tokenize_number:
  "JSON_tokenize (show_int i @ CHR '','' # rest)
     = map_option (Cons (TNum (of_int i))) (JSON_tokenize (CHR '','' # rest))"
proof -
  obtain x xs where si: "show_int i = x # xs" and x: "isDigit x \<or> x = CHR ''-''"
    using show_int_head by blast
  have ln: "lex_number (x # xs @ CHR '','' # rest) = Some (of_int i, CHR '','' # rest)"
    using lex_number_show_int [of "CHR '',''" i rest] by (simp add: si isDigit_def)
  show ?thesis
    using x digit_not_special [OF x]
    by (subst JSON_tokenize.simps) (auto simp: si next_token_def ln)
qed

lemma cursor_json_tokens:
  "JSON_tokenize (stringifyCursor n isoText ident)
   = Some [TLBrace, TStr ''importanceScore'', TColon, TNum (of_int n), TComma,
           TStr ''lastSignalAt'', TColon, TStr isoText, TComma,
           TStr ''id'', TColon, TStr ident, TRBrace]"
proof -
  have k1: "''\"importanceScore\"'' = JSON_quote ''importanceScore''"
    and k2: "''\"lastSignalAt\"'' = JSON_quote ''lastSignalAt''"
    and k3: "''\"id\"'' = JSON_quote ''id''"
    by (simp_all add: JSON_quote_def quote_char_def)
  have "stringifyCursor n isoText ident
        = CHR ''{'' # JSON_quote ''importanceScore'' @ CHR '':'' # show_int n @ CHR '','' #
            JSON_quote ''lastSignalAt'' @ CHR '':'' # JSON_quote isoText @ CHR '','' #
            JSON_quote ''id'' @ CHR '':'' # JSON_quote ident @ CHR ''}'' # []"
    unfolding stringifyCursor_def k1 [symmetric] k2 [symmetric] k3 [symmetric] by simp
  then show ?thesis
    by (simp only: JSON_tokenize_punct JSON_tokenize_string JSON_tokenize_number JSON_tokenize_Nil option.map)
qed

lemma cursor_json_parse:
  "JSON_parse (stringifyCursor n isoText ident)
   = Some (JObj [(''importanceScore'', JNum (of_int n)), (''lastSignalAt'', JStr isoText),
                 (''id'', JStr ident)])"
  by (simp add: JSON_parse_def cursor_json_tokens step_value_def step_key_def step_after_def
      after_value_def close_object_def)

lemma decodeCursor_encodeCursor:
  "decodeCursor (encodeCursor toISOString c)
     = Some \<lparr>cursor_importanceScore = Some (JNum (of_int (importanceScore c))),
             cursor_lastSignalAt = Some (JStr (toISOString (lastSignalAt c))),
             cursor_id = Some (JStr (cluster_id c))\<rparr>"
  by (simp add: decodeCursor_def encodeCursor_def decode_encode_string cursor_json_parse
      property_def)

lemma encodeCursor_nonempty: "encodeCursor toISOString c \<noteq> []"
  by (simp add: encodeCursor_def encode_nonempty bytes_of_def stringifyCursor_def)


section \<open>Keyset pagination\<close>

lemma keyset_valid:
  assumes "newDate (Some (JStr (toISOString (lastSignalAt r)))) = Some (lastSignalAt r)"
  shows "where_valid (buildCursorWhere newDate (keysetCursor toISOString r))"
  using assms
  by (simp add: buildCursorWhere_def keysetCursor_def where_valid_def opt_all_def is_integer_def)

lemma keyset_holds:
  assumes "newDate (Some (JStr (toISOString (lastSignalAt r)))) = Some (lastSignalAt r)"
  shows "where_holds (buildCursorWhere newDate (keysetCursor toISOString r)) x
           = (sortKey x < sortKey r)"
  using assms
  by (auto simp: buildCursorWhere_def keysetCursor_def where_holds_def opt_all_def sortKey_def)

lemma cursorClause_encoded:
  "cursorClause newDate (q\<lparr>q_cursor := Some (encodeCursor toISOString r)\<rparr>)
     = Some (buildCursorWhere newDate (keysetCursor toISOString r))"
  by (simp add: cursorClause_def encodeCursor_nonempty decodeCursor_encodeCursor keysetCursor_def)

lemma cursorClause_none: "cursorClause newDate (q\<lparr>q_cursor := None\<rparr>) = None"
  by (simp add: cursorClause_def)

lemma baseWhere_cursor [simp]: "baseWhere now (q\<lparr>q_cursor := c\<rparr>) d = baseWhere now q d"
  by (rule ext) (simp add: baseWhere_def)

lemma orderBy_filter: "orderBy (filter P xs) = filter P (orderBy xs)"
  by (simp add: orderBy_def filter_sort [symmetric] rev_filter)

lemma set_orderBy [simp]: "set (orderBy xs) = set xs"
  by (simp add: orderBy_def)

lemma length_orderBy [simp]: "length (orderBy xs) = length xs"
  by (simp add: orderBy_def)

lemma distinct_keys:
  assumes "distinct (map cluster_id xs)"
  shows "distinct (map sortKey xs)"
proof -
  have "map cluster_id xs = map (\<lambda>k. snd (snd k)) (map sortKey xs)"
    by (simp add: sortKey_def)
  with assms show ?thesis by (metis distinct_map)
qed

lemma orderBy_descending:
  assumes "distinct (map cluster_id xs)"
  shows "sorted_wrt (\<lambda>a b. sortKey b < sortKey a) (orderBy xs)"
proof -
  have "distinct (map sortKey (sort_key sortKey xs))"
    using distinct_keys [OF assms] by (simp add: distinct_map)
  then have "sorted_wrt (<) (map sortKey (sort_key sortKey xs))"
    using sorted_sort_key [of sortKey xs] strict_sorted_iff by blast
  then show ?thesis
    by (simp add: orderBy_def sorted_wrt_rev sorted_wrt_map)
qed

lemma filter_below_nth:
  assumes "sorted_wrt (\<lambda>a b. key b < key a) xs" and "k < length xs"
  shows "filter (\<lambda>c. key c < (key (xs ! k) :: 'k :: linorder)) xs = drop (Suc k) xs"
proof -
  have split: "xs = take k xs @ xs ! k # drop (Suc k) xs"
    using assms(2) by (rule id_take_nth_drop)
  have sw: "sorted_wrt (\<lambda>a b. key b < key a) (take k xs @ xs ! k # drop (Suc k) xs)"
    using assms(1) split by simp
  have before: "\<forall>c \<in> set (take k xs). \<not> key c < key (xs ! k)"
    using sw by (auto simp: sorted_wrt_append)
  have after: "\<forall>c \<in> set (drop (Suc k) xs). key c < key (xs ! k)"
    using sw by (auto simp: sorted_wrt_append)
  have "filter (\<lambda>c. key c < key (xs ! k)) (take k xs @ xs ! k # drop (Suc k) xs)
          = drop (Suc k) xs"
    using before after by (simp add: filter_id_conv)
  then show ?thesis using split by simp
qed

lemma paginate_page:
  assumes "1 \<le> L"
  shows "paginate toISOString L (take (L + 1) rows) = page toISOString L rows"
proof (cases "L < length rows")
  case True
  then have ne: "take L rows \<noteq> []" using assms by auto
  have "last (take L rows) = take L rows ! (length (take L rows) - 1)"
    using ne by (rule last_conv_nth)
  also have "\<dots> = rows ! (L - 1)"
    using True assms by (simp add: min_def)
  finally have "last (take L rows) = rows ! (L - 1)" .
  with ne True show ?thesis
    by (simp add: paginate_def page_def Let_def min_def)
next
  case False
  then show ?thesis by (simp add: paginate_def page_def Let_def min_def)
qed

lemma GET_no_cursor:
  assumes "1 \<le> q_limit q"
  shows "GET toISOString newDate now (q\<lparr>q_cursor := None\<rparr>) d
           = Inr (page toISOString (q_limit q) (matching now q d))"
  by (simp add: GET_def cursorClause_none opt_all_def matching_def Let_def
      paginate_page [OF assms, simplified])

lemma GET_with_cursor:
  assumes "1 \<le> q_limit q"
    and "newDate (Some (JStr (toISOString (lastSignalAt r)))) = Some (lastSignalAt r)"
  shows "GET toISOString newDate now (q\<lparr>q_cursor := Some (encodeCursor toISOString r)\<rparr>) d
           = Inr (page toISOString (q_limit q)
                    (filter (\<lambda>c. sortKey c < sortKey r) (matching now q d)))"
proof -
  have "filter (\<lambda>c. baseWhere now q d c \<and> sortKey c < sortKey r) (clusters d)
          = filter (\<lambda>c. sortKey c < sortKey r) (filter (baseWhere now q d) (clusters d))"
    by simp
  then have "orderBy (filter (\<lambda>c. baseWhere now q d c \<and> sortKey c < sortKey r) (clusters d))
          = filter (\<lambda>c. sortKey c < sortKey r) (matching now q d)"
    by (simp only: matching_def orderBy_filter)
  then show ?thesis
    by (simp add: GET_def cursorClause_encoded opt_all_def
        keyset_valid [of newDate toISOString r, OF assms(2)]
        keyset_holds [of newDate toISOString r, OF assms(2)] Let_def
        paginate_page [OF assms(1), simplified])
qed

lemma matching_subset: "set (matching now q d) \<subseteq> set (clusters d)"
  by (auto simp: matching_def)

lemma matching_descending:
  assumes "distinct (map cluster_id (clusters d))"
  shows "sorted_wrt (\<lambda>a b. sortKey b < sortKey a) (matching now q d)"
  unfolding matching_def
  by (rule orderBy_descending) (simp add: distinct_map_filter assms)

lemma GET_at:
  assumes L: "1 \<le> q_limit q"
    and ids: "distinct (map cluster_id (clusters d))"
    and dates: "dateContract toISOString newDate d"
    and k: "k \<le> length (matching now q d)"
  shows "GET toISOString newDate now (q\<lparr>q_cursor := cursor_at toISOString (matching now q d) k\<rparr>) d
           = Inr (page toISOString (q_limit q) (drop k (matching now q d)))"
proof (cases "k = 0")
  case True
  then show ?thesis by (simp add: cursor_at_def GET_no_cursor [OF L])
next
  case False
  let ?all = "matching now q d"
  let ?r = "?all ! (k - 1)"
  from False k have k1: "k - 1 < length ?all" by simp
  then have "?r \<in> set (clusters d)"
    using matching_subset [of now q d] nth_mem by blast
  then have c: "newDate (Some (JStr (toISOString (lastSignalAt ?r)))) = Some (lastSignalAt ?r)"
    using dates by (simp add: dateContract_def list_all_iff)
  have "filter (\<lambda>c. sortKey c < sortKey ?r) ?all = drop (Suc (k - 1)) ?all"
    by (rule filter_below_nth [OF matching_descending [OF ids] k1])
  then have "filter (\<lambda>c. sortKey c < sortKey ?r) ?all = drop k ?all"
    using False by simp
  with GET_with_cursor [where r = "?r" and newDate = newDate and toISOString = toISOString, OF L c, of now d] False
  show ?thesis
    by (simp add: cursor_at_def)
qed

lemma res_clusters_page [simp]: "res_clusters (page toISOString L rows) = take L rows"
  by (simp add: page_def)

lemma page_next:
  assumes "1 \<le> L" and "k \<le> length rows"
  shows "nextCursor (page toISOString L (drop k rows))
           = (if L < length rows - k then cursor_at toISOString rows (k + L) else None)"
  using assms by (simp add: page_def cursor_at_def)

lemma walk_from:
  assumes L: "1 \<le> q_limit q"
    and ids: "distinct (map cluster_id (clusters d))"
    and dates: "dateContract toISOString newDate d"
  shows "k \<le> length (matching now q d) \<Longrightarrow> length (matching now q d) - k < fuel
    \<Longrightarrow> walk toISOString newDate now q d fuel (cursor_at toISOString (matching now q d) k)
          = Inr (drop k (matching now q d))"
proof (induction fuel arbitrary: k)
  case 0
  then show ?case by simp
next
  case (Suc fuel)
  let ?all = "matching now q d"
  let ?L = "q_limit q"
  note get = GET_at [OF L ids dates Suc.prems(1)]
  show ?case
  proof (cases "?L < length ?all - k")
    case False
    then have "take ?L (drop k ?all) = drop k ?all" by simp
    with False show ?thesis
      by (simp add: get page_next [OF L Suc.prems(1)])
  next
    case True
    then have k': "k + ?L \<le> length ?all" by simp
    have "length ?all - (k + ?L) < fuel" using Suc.prems(2) L True by linarith
    from Suc.IH [OF k' this]
    have "walk toISOString newDate now q d fuel (cursor_at toISOString ?all (k + ?L))
            = Inr (drop (k + ?L) ?all)" .
    moreover have "take ?L (drop k ?all) @ drop (k + ?L) ?all = drop k ?all"
      by (metis add.commute append_take_drop_id drop_drop)
    moreover obtain y where "cursor_at toISOString ?all (k + ?L) = Some y"
      using L by (simp add: cursor_at_def)
    ultimately show ?thesis
      using True by (simp add: get page_next [OF L Suc.prems(1)])
  qed
qed

lemma walk_complete:
  assumes L: "1 \<le> q_limit q"
    and ids: "distinct (map cluster_id (clusters d))"
    and dates: "dateContract toISOString newDate d"
  shows "walk toISOString newDate now q d (Suc (length (clusters d))) None = Inr (matching now q d)"
proof -
  have "length (matching now q d) \<le> length (clusters d)"
    by (simp add: matching_def)
  then have "length (matching now q d) - 0 < Suc (length (clusters d))" by simp
  from walk_from [OF L ids dates _ this] show ?thesis
    by (simp add: cursor_at_def)
qed

lemma matching_distinct:
  assumes "distinct (map cluster_id (clusters d))"
  shows "distinct (map cluster_id (matching now q d))"
proof -
  have "distinct (map cluster_id (filter (baseWhere now q d) (clusters d)))"
    using assms by (rule distinct_map_filter)
  then show ?thesis
    by (simp add: matching_def orderBy_def distinct_map)
qed

lemma matching_set: "set (matching now q d) = {c \<in> set (clusters d). baseWhere now q d c}"
  by (auto simp: matching_def)

text \<open>
  Claim C1. Let \<open>C\<close> be the cursor that \<open>GET\<close> produces from a stored row \<open>r\<close>
  (\<open>encodeCursor\<close> of its \<open>importanceScore\<close>, \<open>lastSignalAt\<close> and \<open>id\<close>). For a
  limit of at least 1, unique ids, and a platform whose \<open>Date\<close> survives
  \<open>toISOString\<close> and \<open>new Date\<close> on the stored timestamps: the clause the handler
  builds from \<open>C\<close> is accepted and holds of a row \<open>x\<close> exactly when \<open>x\<close> sorts strictly
  below \<open>r\<close> in \<open>(importanceScore, lastSignalAt, id)\<close>, that is strictly after \<open>r\<close> in
  the descending feed order; the request with \<open>C\<close> returns the first \<open>limit\<close> of the
  matching rows strictly after \<open>r\<close>; and over a fixed set of rows the paging walk that
  follows \<open>nextCursor\<close> returns exactly the matching rows in feed order, each once
  (no duplicate, none skipped).
\<close>

theorem keyset_walk_complete:
  assumes "1 \<le> q_limit q"
    and "distinct (map cluster_id (clusters d))"
    and "dateContract toISOString newDate d"
    and "r \<in> set (clusters d)"
  shows "cursorClause newDate (q\<lparr>q_cursor := Some (encodeCursor toISOString r)\<rparr>)
           = Some (buildCursorWhere newDate (keysetCursor toISOString r))
       \<and> where_valid (buildCursorWhere newDate (keysetCursor toISOString r))
       \<and> where_holds (buildCursorWhere newDate (keysetCursor toISOString r)) x
           = (sortKey x < sortKey r)
       \<and> GET toISOString newDate now (q\<lparr>q_cursor := Some (encodeCursor toISOString r)\<rparr>) d
           = Inr (page toISOString (q_limit q)
                    (filter (\<lambda>c. sortKey c < sortKey r) (matching now q d)))
       \<and> walk toISOString newDate now q d (Suc (length (clusters d))) None
           = Inr (matching now q d)
       \<and> distinct (map cluster_id (matching now q d))
       \<and> set (matching now q d) = {c \<in> set (clusters d). baseWhere now q d c}"
proof -
  have c: "newDate (Some (JStr (toISOString (lastSignalAt r)))) = Some (lastSignalAt r)"
    using assms(3,4) by (simp add: dateContract_def list_all_iff)
  show ?thesis
    using cursorClause_encoded [where newDate = newDate and q = q and toISOString = toISOString and r = r]
      keyset_valid [where newDate = newDate and toISOString = toISOString and r = r, OF c]
      keyset_holds [where newDate = newDate and toISOString = toISOString and r = r and x = x, OF c]
      GET_with_cursor [where r = r and newDate = newDate and toISOString = toISOString,
        OF assms(1) c, of now d]
      walk_complete [OF assms(1,2,3), of now]
      matching_distinct [OF assms(2), of now q]
      matching_set [of now q d]
    by simp
qed

lemma feedDb_dates: "dateContract toISOString_utc newDate_iso feedDb"
proof -
  have "newDate_iso (Some (JStr (toISOString_utc 1767225600000))) = Some 1767225600000"
    "newDate_iso (Some (JStr (toISOString_utc 1767225600123))) = Some 1767225600123"
    by code_simp+
  then show ?thesis
    by (simp add: dateContract_def feedDb_def feedCluster_def)
qed

lemma feedDb_matching:
  "matching feedNow feedQuery feedDb
     = [feedCluster ''cc'' 12429 1767225600123, feedCluster ''cb'' 12429 1767225600000,
        feedCluster ''ca'' 9000 1767225600000]"
  by code_simp

theorem keyset_walk_complete_witness:
  "1 \<le> q_limit feedQuery
   \<and> distinct (map cluster_id (clusters feedDb))
   \<and> dateContract toISOString_utc newDate_iso feedDb
   \<and> feedCluster ''cb'' 12429 1767225600000 \<in> set (clusters feedDb)
   \<and> where_holds (buildCursorWhere newDate_iso
                     (keysetCursor toISOString_utc (feedCluster ''cb'' 12429 1767225600000)))
        (feedCluster ''ca'' 9000 1767225600000)
   \<and> \<not> where_holds (buildCursorWhere newDate_iso
                       (keysetCursor toISOString_utc (feedCluster ''cb'' 12429 1767225600000)))
          (feedCluster ''cc'' 12429 1767225600123)
   \<and> walk toISOString_utc newDate_iso feedNow feedQuery feedDb 4 None
       = Inr [feedCluster ''cc'' 12429 1767225600123, feedCluster ''cb'' 12429 1767225600000,
              feedCluster ''ca'' 9000 1767225600000]"
proof -
  have h1: "1 \<le> q_limit feedQuery" by (simp add: feedQuery_def)
  have h2: "distinct (map cluster_id (clusters feedDb))"
    by (simp add: feedDb_def feedCluster_def)
  have h4: "feedCluster ''cb'' 12429 1767225600000 \<in> set (clusters feedDb)"
    by (simp add: feedDb_def)
  have len: "Suc (length (clusters feedDb)) = 4" by (simp add: feedDb_def)
  have lt: "sortKey (feedCluster ''ca'' 9000 1767225600000)
              < sortKey (feedCluster ''cb'' 12429 1767225600000)"
    "\<not> sortKey (feedCluster ''cc'' 12429 1767225600123)
              < sortKey (feedCluster ''cb'' 12429 1767225600000)"
    by (simp_all add: sortKey_def feedCluster_def)
  show ?thesis
    using keyset_walk_complete [OF h1 h2 feedDb_dates h4,
        where x = "feedCluster ''ca'' 9000 1767225600000" and now = feedNow]
      keyset_walk_complete [OF h1 h2 feedDb_dates h4,
        where x = "feedCluster ''cc'' 12429 1767225600123" and now = feedNow]
      h1 h2 h4 feedDb_dates lt
    by (simp add: len feedDb_matching)
qed

text \<open>
  Claim C9. Decoding the cursor that \<open>encodeCursor\<close> builds returns the values that
  went in: the integer score, the text that \<open>toISOString\<close> gave for the timestamp
  (any text, since \<open>toISOString\<close> is arbitrary here) and the id.
\<close>

theorem cursor_roundtrip:
  "decodeCursor (encodeCursor toISOString c)
     = Some \<lparr>cursor_importanceScore = Some (JNum (of_int (importanceScore c))),
             cursor_lastSignalAt = Some (JStr (toISOString (lastSignalAt c))),
             cursor_id = Some (JStr (cluster_id c))\<rparr>"
  by (simp add: decodeCursor_def encodeCursor_def decode_encode_string cursor_json_parse
      property_def)

text \<open>
  The path \<open>decodeCursor\<close> guards: it returns null, without throwing, exactly for the
  strings whose base64url decoding is not JSON text or is the JSON text \<open>null\<close>, and for
  such a cursor parameter \<open>GET\<close> applies no keyset predicate and gives the response of
  the request without cursor.
\<close>

lemma null_cursor_is_ignored:
  "(decodeCursor cursor = None)
     = (JSON_parse (string_of (base64url_decode cursor)) \<in> {None, Some JNull})
   \<and> (decodeCursor cursor = None \<longrightarrow>
        cursorClause newDate (q\<lparr>q_cursor := Some cursor\<rparr>) = None
        \<and> GET toISOString newDate now (q\<lparr>q_cursor := Some cursor\<rparr>) d
            = GET toISOString newDate now (q\<lparr>q_cursor := None\<rparr>) d)"
proof -
  have "(decodeCursor cursor = None)
     = (JSON_parse (string_of (base64url_decode cursor)) \<in> {None, Some JNull})"
    by (simp add: decodeCursor_def split: option.splits json.splits)
  moreover have "cursorClause newDate (q\<lparr>q_cursor := Some cursor\<rparr>) = None"
    if "decodeCursor cursor = None"
    using that by (simp add: cursorClause_def)
  moreover have "GET toISOString newDate now (q\<lparr>q_cursor := Some cursor\<rparr>) d
            = GET toISOString newDate now (q\<lparr>q_cursor := None\<rparr>) d"
    if "decodeCursor cursor = None"
    using that by (simp add: GET_def cursorClause_def)
  ultimately show ?thesis by blast
qed

lemma null_cursor_is_ignored_example:
  "decodeCursor ''not-a-cursor'' = None
   \<and> cursorClause newDate_iso (feedQuery\<lparr>q_cursor := Some ''not-a-cursor''\<rparr>) = None
   \<and> GET toISOString_utc newDate_iso feedNow (feedQuery\<lparr>q_cursor := Some ''not-a-cursor''\<rparr>) feedDb
       = GET toISOString_utc newDate_iso feedNow (feedQuery\<lparr>q_cursor := None\<rparr>) feedDb"
proof -
  have h: "decodeCursor ''not-a-cursor'' = None" by code_simp
  from null_cursor_is_ignored [where cursor = "''not-a-cursor''" and newDate = newDate_iso
      and q = feedQuery and toISOString = toISOString_utc and now = feedNow and d = feedDb] h
  show ?thesis by simp
qed

text \<open>
  Claim C10. A cursor parameter that is not a well-formed encoded cursor is to decode to
  null and the request to be served like one without cursor, which is what
  \<open>decodeCursor\<close> (typed \<open>ClusterCursor | null\<close>, catching to null) and the guard of the
  handler provide for text that does not parse. The parameter \<open>e30\<close> is the base64url
  text of \<open>{}\<close>, a JSON object without any of the three properties: \<open>decodeCursor\<close>
  returns a cursor with three undefined properties instead of null, the handler builds a
  clause from it, and the request ends with status 500 where the request without cursor
  is answered.
\<close>

theorem empty_object_cursor_not_null:
  "string_of (base64url_decode ''e30'') = ''{}''
   \<and> decodeCursor ''e30''
       = Some \<lparr>cursor_importanceScore = None, cursor_lastSignalAt = None, cursor_id = None\<rparr>
   \<and> cursorClause newDate_iso (feedQuery\<lparr>q_cursor := Some ''e30''\<rparr>) \<noteq> None
   \<and> GET toISOString_utc newDate_iso feedNow (feedQuery\<lparr>q_cursor := Some ''e30''\<rparr>) feedDb
       = Inl InternalServerError
   \<and> GET toISOString_utc newDate_iso feedNow (feedQuery\<lparr>q_cursor := None\<rparr>) feedDb
       \<noteq> Inl InternalServerError"
proof -
  have "string_of (base64url_decode ''e30'') = ''{}''" by code_simp
  moreover have d: "decodeCursor ''e30''
       = Some \<lparr>cursor_importanceScore = None, cursor_lastSignalAt = None, cursor_id = None\<rparr>"
    by code_simp
  moreover have "cursorClause newDate_iso (feedQuery\<lparr>q_cursor := Some ''e30''\<rparr>) \<noteq> None"
    by (simp add: cursorClause_def d)
  moreover have "GET toISOString_utc newDate_iso feedNow (feedQuery\<lparr>q_cursor := Some ''e30''\<rparr>) feedDb
       = Inl InternalServerError"
    by (simp add: GET_def cursorClause_def d buildCursorWhere_def where_valid_def opt_all_def
        newDate_iso_def)
  moreover have "GET toISOString_utc newDate_iso feedNow (feedQuery\<lparr>q_cursor := None\<rparr>) feedDb
       \<noteq> Inl InternalServerError"
    by (simp add: GET_def cursorClause_def opt_all_def)
  ultimately show ?thesis by simp
qed

section \<open>Content hash\<close>

text \<open>The test vectors of FIPS 180-4 for one and for two blocks.\<close>

lemma sha256_abc:
  "hashContent ''abc'' = ''ba7816bf8f01cfea414140de5dae2223b00361a396177a9cb410ff61f20015ad''"
  by code_simp

lemma sha256_two_blocks:
  "hashContent ''abcdbcdecdefdefgefghfghighijhijkijkljklmklmnlmnomnopnopq''
     = ''248d6a61d20638b8e5c026930c3e6039a33ce45964ff2167f6ecedd419db06c1''"
  by code_simp

lemma guidItem_normalizeUrl:
  "normalizeUrl examplePlatform (item_sourceUrl guidItem) = ''https://example.com/feed/post-42''"
  by code_simp

lemma guidItem_contentHash:
  "storeRawSignal_contentHash examplePlatform guidItem
     = ''ca1587492af4e76e149d7c2c6383d7874efa543150012f2fd268f539f4c18cd2''"
  by code_simp

lemma guidItem_spec_contentHash:
  "spec_contentHash examplePlatform guidItem
     = ''5a78b6befb0c4f260b38dba4539073622e49955db361de54342a762bb61cc7cd''"
  by code_simp

lemma plainItem_contentHash:
  "storeRawSignal_contentHash examplePlatform plainItem
     = ''ef401b8d58024e8b0c0ce91056e1046a272cbcc4c691abae91889ebf61d96727''"
  by code_simp

lemma plainItem_spec_contentHash:
  "spec_contentHash examplePlatform plainItem
     = ''258b3ad2d486faae9dcb578d6eca8bc49dc6678e5b5d17b82fd41f6245acf5ad''"
  by code_simp

lemma plainItem_not_as_specified:
  "storeRawSignal_contentHash examplePlatform plainItem
     \<noteq> spec_contentHash examplePlatform plainItem"
  by (simp add: plainItem_contentHash plainItem_spec_contentHash)

text \<open>
  Claim C6, as stated: with an external id the hashed text is
  \<open>normalize(url)|externalId|\<close>, the third component empty. For the item with the id
  \<open>post-42\<close> the code hashes \<open>https://example.com/feed/post-42|post-42|unknown\<close>, whose
  digest is not that of \<open>https://example.com/feed/post-42|post-42|\<close>.
\<close>

theorem contentHash_not_as_specified:
  "storeRawSignal_contentHash examplePlatform guidItem
     = ''ca1587492af4e76e149d7c2c6383d7874efa543150012f2fd268f539f4c18cd2''
   \<and> spec_contentHash examplePlatform guidItem
     = ''5a78b6befb0c4f260b38dba4539073622e49955db361de54342a762bb61cc7cd''
   \<and> storeRawSignal_contentHash examplePlatform guidItem
       \<noteq> spec_contentHash examplePlatform guidItem"
  by (simp add: guidItem_contentHash guidItem_spec_contentHash)

text \<open>
  Claim C6, amended. The stored hash is the SHA-256 digest of the normalized URL, a
  bar, the lowercased and trimmed external id, and \<open>|unknown\<close> when the item has a
  non-empty external id, whatever its title and date are; otherwise of the normalized
  URL, a bar, the lowercased and trimmed title (empty without one), a bar, and the first
  ten characters of the date's ISO text, or \<open>unknown\<close> without a date.
\<close>

theorem contentHash_composition:
  "storeRawSignal_contentHash P item
     = hashContent
         (normalizeUrl P (item_sourceUrl item) @ ''|''
          @ (case orNull (item_externalId item) of
               Some externalId \<Rightarrow> String_trim P (String_toLowerCase P externalId) @ ''|unknown''
             | None \<Rightarrow>
                 String_trim P (String_toLowerCase P (str_or (item_title item) [])) @ ''|''
                 @ (case item_publishedAt item of
                      Some d \<Rightarrow> take 10 (Date_toISOString P d)
                    | None \<Rightarrow> ''unknown'')))
   \<and> (orNull (item_externalId item) \<noteq> None \<longrightarrow>
        storeRawSignal_contentHash P (item\<lparr>item_title := t, item_publishedAt := p\<rparr>)
          = storeRawSignal_contentHash P item)"
proof -
  have "str_or (orNull s) [] = str_or s []" for s
    by (simp add: str_or_def orNull_def split: option.splits)
  moreover have "str_or (Some e) [] = e" if "orNull s = Some e" for s e
    using that by (auto simp: str_or_def orNull_def split: option.splits if_splits)
  ultimately show ?thesis
    by (auto simp: storeRawSignal_contentHash_def generateContentHash_def Let_def
        split: option.splits)
qed

theorem contentHash_composition_witness:
  "orNull (item_externalId guidItem) \<noteq> None
   \<and> storeRawSignal_contentHash examplePlatform
         (guidItem\<lparr>item_title := Some ''Another title'', item_publishedAt := None\<rparr>)
       = ''ca1587492af4e76e149d7c2c6383d7874efa543150012f2fd268f539f4c18cd2''"
proof -
  have "orNull (item_externalId guidItem) \<noteq> None"
    by (simp add: guidItem_def orNull_def)
  with contentHash_composition [where P = examplePlatform and item = guidItem
      and t = "Some ''Another title''" and p = None]
  show ?thesis
    by (simp add: guidItem_contentHash)
qed

end
